theory Spec2Isabelle
  imports Complex_Main "HOL-Library.Sublist"
begin

section \<open>Maps Area Insights: the backend's ranking, caching and validation logic\<close>

text \<open>
  The development embeds the backend services of the repository:
  \<^item> \<^verbatim>\<open>PersonalizationService\<close> (backend/src/services/personalizationService.js): the
    scoring tables, the per-place score, filter, sort and cap, the primary-category
    lookup, and reading and saving preference records;
  \<^item> \<^verbatim>\<open>AreaInsightsController\<close> (its source follows the server code in
    backend/src/server.js): request validation and the synthetic hourly activity curve;
  \<^item> \<^verbatim>\<open>FirebaseService\<close> (its source follows the text of PROJECT_STATUS.md): the
    cache key and the area cache;
  \<^item> \<^verbatim>\<open>GooglePlacesService\<close> (its source follows \<^verbatim>\<open>FirebaseService\<close> in
    PROJECT_STATUS.md): one nearby search and the five-category fan-out;
  \<^item> \<^verbatim>\<open>UserPreferencesController\<close> (backend/src/controllers/userPreferencesController.js):
    validation of preference records and the update path of the preference store.

  JavaScript numbers are modelled by \<^typ>\<open>real\<close>, \<^typ>\<open>int\<close> or \<^typ>\<open>nat\<close>. Where
  the code can produce NaN (the personalized score) the number type has NaN as a value of
  its own, and where the result depends on the rounding of binary64 arithmetic (the cache
  key) the rounding is written out. Dates are modelled by milliseconds or, where only the
  hour is read, by the hour, and an absent property by \<open>None\<close>. A lookup in one of the
  constant tables (\<^verbatim>\<open>table[key]\<close>) finds the keys the table lists and the members every
  object inherits. Console output is left out.
\<close>

subsection \<open>JavaScript's \<open>||\<close> on numbers\<close>

text \<open>\<^verbatim>\<open>x || d\<close>: the default \<open>d\<close> is taken when \<open>x\<close> is undefined or zero.\<close>

definition orInt :: "int option \<Rightarrow> int \<Rightarrow> int" where
  "orInt x d = (case x of None \<Rightarrow> d | Some v \<Rightarrow> if v = 0 then d else v)"

definition orNat :: "nat option \<Rightarrow> nat \<Rightarrow> nat" where
  "orNat x d = (case x of None \<Rightarrow> d | Some v \<Rightarrow> if v = 0 then d else v)"

definition orReal :: "real option \<Rightarrow> real \<Rightarrow> real" where
  "orReal x d = (case x of None \<Rightarrow> d | Some v \<Rightarrow> if v = 0 then d else v)"

subsection \<open>Objects as tables\<close>

text \<open>
  A lookup \<^verbatim>\<open>table[key]\<close> in an object literal finds the properties the literal lists
  and, for any other key, the members every object inherits from \<^verbatim>\<open>Object.prototype\<close>.
  An inherited member is a function (the prototype object itself for \<^verbatim>\<open>__proto__\<close>):
  it is truthy, it has no \<^verbatim>\<open>forEach\<close> and no \<^verbatim>\<open>priorityTypes\<close>, and arithmetic on it
  gives NaN.
\<close>

definition objectPrototypeKeys :: "string list" where
  "objectPrototypeKeys =
     [''constructor'', ''__defineGetter__'', ''__defineSetter__'', ''hasOwnProperty'',
      ''__lookupGetter__'', ''__lookupSetter__'', ''isPrototypeOf'', ''propertyIsEnumerable'',
      ''toString'', ''valueOf'', ''__proto__'', ''toLocaleString'']"

datatype 'a member = Own 'a | Inherited | Absent

definition lookupMember :: "(string \<times> 'a) list \<Rightarrow> string \<Rightarrow> 'a member" where
  "lookupMember table key =
     (case map_of table key of
        Some v \<Rightarrow> Own v
      | None \<Rightarrow> if key \<in> set objectPrototypeKeys then Inherited else Absent)"

fun ownValue :: "'a member \<Rightarrow> 'a option" where
  "ownValue (Own v) = Some v"
| "ownValue Inherited = None"
| "ownValue Absent = None"

subsection \<open>Numbers that may be NaN\<close>

text \<open>
  Addition and subtraction give NaN as soon as one operand is NaN, and every comparison
  with NaN is false. A sort comparator that returns NaN is read as returning 0.
\<close>

datatype jsnum = Number real | NaN

fun addNum :: "jsnum \<Rightarrow> jsnum \<Rightarrow> jsnum" where
  "addNum (Number a) (Number b) = Number (a + b)"
| "addNum (Number a) NaN = NaN"
| "addNum NaN b = NaN"





subsection \<open>Errors\<close>

text \<open>A thrown \<^verbatim>\<open>Error\<close> (or \<^verbatim>\<open>TypeError\<close>) with its message.\<close>

datatype js_error = Error string

subsection \<open>Places\<close>

text \<open>
  A result of the places provider. \<open>rating\<close>, \<open>user_ratings_total\<close>, \<open>price_level\<close>
  and \<open>business_status\<close> may be absent; \<open>types\<close> is read unguarded by every function
  below and is always present.
\<close>

record place =
  place_id :: string
  rating :: "real option"
  user_ratings_total :: "nat option"
  price_level :: "int option"
  types :: "string list"
  business_status :: "string option"

subsection \<open>getPriceLevelScore\<close>

definition priceMapping :: "(string \<times> int) list" where
  "priceMapping =
     [(''budget'', 0), (''low'', 1), (''medium'', 2), (''comfortable'', 3), (''luxury'', 4)]"

text \<open>
  \<^verbatim>\<open>const preferredLevel = priceMapping[userPriceRange] || 2;\<close>
  \<^verbatim>\<open>const difference = Math.abs(priceLevel - preferredLevel);\<close>
  \<^verbatim>\<open>return Math.max(0, 2 - difference);\<close>
  When \<open>userPriceRange\<close> names an inherited member, \<open>preferredLevel\<close> is that member,
  the subtraction gives NaN, and \<^verbatim>\<open>Math.abs\<close> and \<^verbatim>\<open>Math.max\<close> keep it.
\<close>

definition getPriceLevelScore :: "int \<Rightarrow> string \<Rightarrow> jsnum" where
  "getPriceLevelScore priceLevel userPriceRange =
     (let found = lookupMember priceMapping userPriceRange in
      if found = Inherited then NaN
      else
        (let preferredLevel = orInt (ownValue found) 2;
             difference = \<bar>priceLevel - preferredLevel\<bar>
         in Number (of_int (max 0 (2 - difference)))))"

subsection \<open>getPrimaryPlaceType\<close>

definition primaryTypes :: "string list" where
  "primaryTypes =
     [''restaurant'', ''tourist_attraction'', ''shopping_mall'', ''museum'',
      ''park'', ''night_club'', ''bar'', ''cafe'', ''amusement_park'']"

text \<open>
  The loop over \<open>primaryTypes\<close> returns at the first entry that \<open>types\<close> includes;
  after the loop, \<^verbatim>\<open>types[0] || 'establishment'\<close> takes the default when the list is
  empty or its first entry is the empty string.
\<close>

fun firstIncluded :: "string list \<Rightarrow> string list \<Rightarrow> string option" where
  "firstIncluded [] ts = None"
| "firstIncluded (t # rest) ts = (if t \<in> set ts then Some t else firstIncluded rest ts)"

definition getPrimaryPlaceType :: "string list \<Rightarrow> string" where
  "getPrimaryPlaceType ts =
     (case firstIncluded primaryTypes ts of
        Some t \<Rightarrow> t
      | None \<Rightarrow>
          (case ts of
             [] \<Rightarrow> ''establishment''
           | t0 # _ \<Rightarrow> if t0 = [] then ''establishment'' else t0))"

subsection \<open>The synthetic hourly activity curve\<close>

record hourly_entry =
  hour :: nat
  activityLevel :: int

text \<open>\<open>calculateHourlyActivity\<close>: the running \<open>baseActivity\<close> is threaded through
  the four conditional increments in the order of the source.\<close>

definition calculateHourlyActivity :: "nat \<Rightarrow> place list \<Rightarrow> int" where
  "calculateHourlyActivity h places =
     (let b0 = 30;
          b1 = (if 9 \<le> h \<and> h \<le> 21 then b0 + 40 else b0);
          b2 = (if 12 \<le> h \<and> h \<le> 14 then b1 + 20 else b1);
          b3 = (if 18 \<le> h \<and> h \<le> 20 then b2 + 30 else b2);
          hasRestaurants = (\<exists>p \<in> set places. ''restaurant'' \<in> set (types p));
          hasNightlife =
            (\<exists>p \<in> set places. ''night_club'' \<in> set (types p) \<or> ''bar'' \<in> set (types p));
          b4 = (if hasRestaurants \<and> (h = 12 \<or> h = 13 \<or> (18 \<le> h \<and> h \<le> 20))
                then b3 + 15 else b3);
          b5 = (if hasNightlife \<and> 21 \<le> h then b4 + 25 else b4)
      in min 100 (max 10 b5))"

text \<open>\<^verbatim>\<open>Array.from({ length: 24 }, (_, hour) => ({ hour, activityLevel: ... }))\<close>\<close>

definition generateHourlyActivity :: "place list \<Rightarrow> hourly_entry list" where
  "generateHourlyActivity places =
     map (\<lambda>h. \<lparr>hour = h, activityLevel = calculateHourlyActivity h places\<rparr>) [0..<24]"

subsection \<open>The personalization engine\<close>

text \<open>
  The three sub-records of \<^verbatim>\<open>ageGroupPreferences\<close> and the five fields of a preference
  record that the engine reads, together with the optional \<open>maxResults\<close>.
\<close>

record age_group_prefs =
  priorityTypes :: "string list"
  timePreference :: string
  priceRange :: string

record preferences =
  interests :: "string list"
  ageGroup :: string
  preferredEnvironment :: string
  priceRange :: string
  timePreference :: string
  maxResults :: "nat option"

text \<open>
  The context object of a request. \<open>currentTime\<close> holds the local hour
  (\<^verbatim>\<open>currentTime.getHours()\<close>) of the date the caller passed, when it passed one.
\<close>

record request_ctx =
  currentTime :: "nat option"

text \<open>\<^verbatim>\<open>{ ...place, personalizedScore, matchingInterests, ageGroupMatch }\<close>\<close>

record scored_place = place +
  personalizedScore :: jsnum
  matchingInterests :: "string list"
  ageGroupMatch :: bool

definition interestMapping :: "(string \<times> string list) list" where
  "interestMapping =
     [(''food'', [''restaurant'', ''cafe'', ''bakery'', ''meal_takeaway'', ''meal_delivery'']),
      (''nightlife'', [''night_club'', ''bar'', ''liquor_store'']),
      (''culture'', [''museum'', ''art_gallery'', ''library'', ''university'']),
      (''history'', [''tourist_attraction'', ''museum'', ''cemetery'', ''place_of_worship'']),
      (''shopping'', [''shopping_mall'', ''store'', ''clothing_store'', ''electronics_store'']),
      (''entertainment'', [''amusement_park'', ''movie_theater'', ''bowling_alley'', ''casino'']),
      (''nature'', [''park'', ''zoo'', ''aquarium'', ''campground'']),
      (''fitness'', [''gym'', ''spa'', ''stadium'']),
      (''business'', [''bank'', ''post_office'', ''city_hall'', ''courthouse'']),
      (''health'', [''hospital'', ''pharmacy'', ''doctor'', ''dentist'']),
      (''travel'', [''lodging'', ''travel_agency'', ''gas_station'', ''airport'']),
      (''services'', [''car_repair'', ''laundry'', ''hair_care'', ''beauty_salon''])]"

definition adultPrefs :: age_group_prefs where
  "adultPrefs =
     \<lparr>priorityTypes = [''restaurant'', ''museum'', ''tourist_attraction'', ''park''],
      timePreference = ''flexible'', priceRange = ''medium''\<rparr>"

definition ageGroupPreferences :: "(string \<times> age_group_prefs) list" where
  "ageGroupPreferences =
     [(''young'',
        \<lparr>priorityTypes = [''night_club'', ''bar'', ''amusement_park'', ''shopping_mall''],
         timePreference = ''evening'', priceRange = ''budget''\<rparr>),
      (''adult'', adultPrefs),
      (''senior'',
        \<lparr>priorityTypes = [''museum'', ''park'', ''restaurant'', ''library''],
         timePreference = ''morning'', priceRange = ''comfortable''\<rparr>),
      (''family'',
        \<lparr>priorityTypes = [''park'', ''zoo'', ''amusement_park'', ''restaurant''],
         timePreference = ''daytime'', priceRange = ''family-friendly''\<rparr>)]"

text \<open>
  \<open>getRelevantPlaceTypes\<close> collects the mapped types of every interest in a
  \<^verbatim>\<open>Set\<close> and returns \<^verbatim>\<open>Array.from(types)\<close>: the distinct types in the order of
  their first insertion. \<^verbatim>\<open>this.interestMapping[interest] || [interest]\<close> passes an
  unmapped interest through as a type. For an interest that names an inherited member,
  \<open>mappedTypes\<close> is that member and the call \<^verbatim>\<open>mappedTypes.forEach\<close> raises a
  \<^verbatim>\<open>TypeError\<close>, which ends the loop over the interests.
\<close>

definition setAdd :: "string list \<Rightarrow> string \<Rightarrow> string list" where
  "setAdd s t = (if t \<in> set s then s else s @ [t])"

fun forEachInterest :: "string list \<Rightarrow> string list \<Rightarrow> js_error + string list" where
  "forEachInterest acc [] = Inr acc"
| "forEachInterest acc (interest # rest) =
     (case lookupMember interestMapping interest of
        Own mappedTypes \<Rightarrow> forEachInterest (foldl setAdd acc mappedTypes) rest
      | Absent \<Rightarrow> forEachInterest (foldl setAdd acc [interest]) rest
      | Inherited \<Rightarrow> Inl (Error ''mappedTypes.forEach is not a function''))"

definition getRelevantPlaceTypes :: "string list \<Rightarrow> js_error + string list" where
  "getRelevantPlaceTypes ints = forEachInterest [] ints"

definition getEnvironmentScore :: "place \<Rightarrow> string \<Rightarrow> real" where
  "getEnvironmentScore p preferredEnv =
     (let reviewCount = orNat (user_ratings_total p) 0 in
      if preferredEnv = ''quiet'' then (if reviewCount < 100 then 2 else 0)
      else if preferredEnv = ''busy'' then (if reviewCount > 500 then 2 else 0)
      else if preferredEnv = ''trending'' then
        (if (case rating p of None \<Rightarrow> False | Some r \<Rightarrow> r > 4) \<and> reviewCount > 200
         then 3 else 0)
      else if preferredEnv = ''family-friendly'' then
        (if ''park'' \<in> set (types p) \<or> ''zoo'' \<in> set (types p)
            \<or> ''amusement_park'' \<in> set (types p) then 2 else 0)
      else 1)"

definition getTimeScore :: "place \<Rightarrow> nat \<Rightarrow> string \<Rightarrow> real" where
  "getTimeScore p h timePref =
     (if timePref = ''morning'' then (if 6 \<le> h \<and> h < 12 then 1 else 0)
      else if timePref = ''afternoon'' then (if 12 \<le> h \<and> h < 17 then 1 else 0)
      else if timePref = ''evening'' then (if 17 \<le> h \<and> h < 22 then 1 else 0)
      else if timePref = ''night'' then (if 22 \<le> h \<or> h < 6 then 1 else 0)
      else 1 / 2)"

text \<open>
  \<^verbatim>\<open>this.ageGroupPreferences[userPreferences.ageGroup] || this.ageGroupPreferences.adult\<close>:
  the adult profile is taken when the age group is no member at all; an inherited member
  is truthy and is kept.
\<close>

definition ageGroupPrefsOf :: "preferences \<Rightarrow> age_group_prefs member" where
  "ageGroupPrefsOf userPreferences =
     (let found = lookupMember ageGroupPreferences (ageGroup userPreferences) in
      if found = Absent then lookupMember ageGroupPreferences ''adult'' else found)"

text \<open>
  \<^verbatim>\<open>place.types.filter(type => ageGroupPrefs.priorityTypes.includes(type))\<close>: when
  \<open>ageGroupPrefs\<close> is not one of the profiles it has no \<open>priorityTypes\<close>, and the
  callback raises a \<^verbatim>\<open>TypeError\<close> at the first tag it is called on; a place without
  tags passes.
\<close>

definition filterPriority :: "age_group_prefs member \<Rightarrow> string list \<Rightarrow> js_error + string list" where
  "filterPriority ageGroupPrefs ts =
     (case ownValue ageGroupPrefs of
        Some g \<Rightarrow> Inr (filter (\<lambda>t. t \<in> set (priorityTypes g)) ts)
      | None \<Rightarrow>
          if ts = [] then Inr []
          else Inl (Error ''Cannot read properties of undefined (reading includes)''))"

text \<open>
  The body of the \<^verbatim>\<open>places.map\<close> callback of \<open>personalizePlaces\<close>. The running
  \<open>score\<close> is threaded through the eight updates in the order of the source.
\<close>

definition scorePlace ::
  "string list \<Rightarrow> age_group_prefs member \<Rightarrow> preferences \<Rightarrow> request_ctx \<Rightarrow> place
     \<Rightarrow> js_error + scored_place" where
  "scorePlace relevantTypes ageGroupPrefs userPreferences ctx p =
     (let score0 = Number 0;
          ratingv = orReal (rating p) 0;
          reviewCount = orNat (user_ratings_total p) 0;
          score1 = addNum score0 (Number (ratingv * 2));
          score2 = addNum score1 (Number (min (ln (real reviewCount + 1)) 5));
          matchingTypes = filter (\<lambda>t. t \<in> set relevantTypes) (types p);
          score3 = addNum score2 (Number (real (length matchingTypes) * 3))
      in case filterPriority ageGroupPrefs (types p) of
           Inl e \<Rightarrow> Inl e
         | Inr ageGroupMatches \<Rightarrow>
             (let score4 = addNum score3 (Number (real (length ageGroupMatches) * 2));
                  score5 = (case price_level p of
                              None \<Rightarrow> score4
                            | Some l \<Rightarrow>
                                addNum score4
                                  (getPriceLevelScore l (preferences.priceRange userPreferences)));
                  score6 = addNum score5
                             (Number (getEnvironmentScore p (preferredEnvironment userPreferences)));
                  score7 = (case currentTime ctx of
                              None \<Rightarrow> score6
                            | Some h \<Rightarrow>
                                addNum score6
                                  (Number (getTimeScore p h
                                     (preferences.timePreference userPreferences))));
                  score8 = (if business_status p = Some ''OPERATIONAL''
                            then addNum score7 (Number 1) else score7)
              in Inr \<lparr>place_id = place_id p, rating = rating p,
                      user_ratings_total = user_ratings_total p, price_level = price_level p,
                      types = types p, business_status = business_status p,
                      personalizedScore = score8, matchingInterests = matchingTypes,
                      ageGroupMatch = (length ageGroupMatches > 0)\<rparr>))"

text \<open>\<^verbatim>\<open>places.map\<close> with a callback that may raise: the first error ends the map.\<close>

fun mapRaising :: "('a \<Rightarrow> js_error + 'b) \<Rightarrow> 'a list \<Rightarrow> js_error + 'b list" where
  "mapRaising f [] = Inr []"
| "mapRaising f (x # xs) =
     (case f x of
        Inl e \<Rightarrow> Inl e
      | Inr y \<Rightarrow> (case mapRaising f xs of Inl e \<Rightarrow> Inl e | Inr ys \<Rightarrow> Inr (y # ys)))"



text \<open>
  The list \<open>scoredPlaces\<close> of \<open>personalizePlaces\<close>, and the function itself. The
  \<^verbatim>\<open>try\<close> block filters on \<open>personalizedScore > 2\<close>, sorts by
  \<open>b.personalizedScore - a.personalizedScore\<close> and takes
  \<^verbatim>\<open>slice(0, userPreferences.maxResults || 15)\<close>. When \<open>getRelevantPlaceTypes\<close> or the
  map callback raises, the \<^verbatim>\<open>catch\<close> branch returns \<^verbatim>\<open>places.slice(0, 15)\<close>: the
  first 15 places as they came in, without a score.
\<close>

definition scoredPlaces ::
  "place list \<Rightarrow> preferences \<Rightarrow> request_ctx \<Rightarrow> js_error + scored_place list" where
  "scoredPlaces places userPreferences ctx =
     (case getRelevantPlaceTypes (interests userPreferences) of
        Inl e \<Rightarrow> Inl e
      | Inr relevantTypes \<Rightarrow>
          (let ageGroupPrefs = ageGroupPrefsOf userPreferences
           in mapRaising (scorePlace relevantTypes ageGroupPrefs userPreferences ctx) places))"



subsection \<open>The score of the specification\<close>

text \<open>
  Section 4.4 of the specification, step by step, written without the functions of the
  code. The specification gives the two tables by example only, so their entries are the
  ones of the code; a key is looked up among the entries, an interest that has no entry
  stands for itself, and an age group, price range or time preference outside its
  enumeration resolves to the documented default (adult, medium, flexible). The
  family-oriented tags are park, zoo and amusement_park. A named window \<open>a\<close>--\<open>b\<close>
  holds the hours from \<open>a\<close> up to, not including, \<open>b\<close>; the night window wraps around
  midnight.
\<close>

definition specRelevantTags :: "string list \<Rightarrow> string set" where
  "specRelevantTags ints =
     (\<Union>i \<in> set ints. case map_of interestMapping i of None \<Rightarrow> {i} | Some tags \<Rightarrow> set tags)"

definition specPriorityTags :: "string \<Rightarrow> string set" where
  "specPriorityTags g =
     (case map_of ageGroupPreferences g of
        None \<Rightarrow> set (priorityTypes adultPrefs)
      | Some profile \<Rightarrow> set (priorityTypes profile))"

definition specPriceIndex :: "string \<Rightarrow> int" where
  "specPriceIndex r =
     (case map_of [(''budget'', 0), (''low'', 1), (''medium'', 2), (''comfortable'', 3),
                   (''luxury'', 4)] r of
        None \<Rightarrow> 2
      | Some i \<Rightarrow> i)"

definition specPriceLevelScore :: "int \<Rightarrow> string \<Rightarrow> real" where
  "specPriceLevelScore l r = of_int (max 0 (2 - \<bar>l - specPriceIndex r\<bar>))"

definition specEnvironmentScore :: "place \<Rightarrow> string \<Rightarrow> real" where
  "specEnvironmentScore p e =
     (let reviews = (case user_ratings_total p of None \<Rightarrow> 0 | Some n \<Rightarrow> n);
          stars = (case rating p of None \<Rightarrow> 0 | Some r \<Rightarrow> r)
      in case map_of
           [(''quiet'', if reviews < 100 then 2 else 0),
            (''busy'', if reviews > 500 then 2 else 0),
            (''trending'', if stars > 4 \<and> reviews > 200 then 3 else 0),
            (''family-friendly'',
               if set (types p) \<inter> {''park'', ''zoo'', ''amusement_park''} \<noteq> {} then 2 else 0)]
           e of
           None \<Rightarrow> 1
         | Some s \<Rightarrow> s)"

definition specWindows :: "(string \<times> nat \<times> nat) list" where
  "specWindows =
     [(''morning'', 6, 12), (''afternoon'', 12, 17), (''evening'', 17, 22), (''night'', 22, 6)]"

definition inWindow :: "nat \<times> nat \<Rightarrow> nat \<Rightarrow> bool" where
  "inWindow w h =
     (if fst w \<le> snd w then fst w \<le> h \<and> h < snd w else fst w \<le> h \<or> h < snd w)"

definition specTimeScore :: "nat \<Rightarrow> string \<Rightarrow> real" where
  "specTimeScore h t =
     (case map_of specWindows t of
        None \<Rightarrow> 1 / 2
      | Some w \<Rightarrow> if inWindow w h then 1 else 0)"

definition specScore :: "preferences \<Rightarrow> nat \<Rightarrow> place \<Rightarrow> real" where
  "specScore u h p =
     (case rating p of None \<Rightarrow> 0 | Some r \<Rightarrow> r) * 2
     + min (ln (real (case user_ratings_total p of None \<Rightarrow> 0 | Some n \<Rightarrow> n) + 1)) 5
     + 3 * real (card (set (types p) \<inter> specRelevantTags (interests u)))
     + 2 * real (card (set (types p) \<inter> specPriorityTags (ageGroup u)))
     + (case price_level p of
          None \<Rightarrow> 0
        | Some l \<Rightarrow> specPriceLevelScore l (preferences.priceRange u))
     + specEnvironmentScore p (preferredEnvironment u)
     + specTimeScore h (preferences.timePreference u)
     + (if business_status p = Some ''OPERATIONAL'' then 1 else 0)"

subsection \<open>Request validation\<close>

text \<open>
  A request body as \<^verbatim>\<open>express.json()\<close> parses it. \<open>JObj\<close> lists the properties of the
  parsed object; a property that is not listed is undefined (\<open>None\<close>), as is any property
  \<open>coords\<close>, \<open>lat\<close> or \<open>lng\<close> of a value that is not an object.
\<close>

datatype json =
  JNull
  | JBool bool
  | JNum real
  | JStr string
  | JArr "json list"
  | JObj "(string \<times> json) list"

fun truthy :: "json \<Rightarrow> bool" where
  "truthy JNull = False"
| "truthy (JBool b) = b"
| "truthy (JNum x) = (x \<noteq> 0)"
| "truthy (JStr s) = (s \<noteq> [])"
| "truthy (JArr _) = True"
| "truthy (JObj _) = True"

fun getProp :: "json \<Rightarrow> string \<Rightarrow> json option" where
  "getProp (JObj kvs) k = map_of kvs k"
| "getProp _ k = None"

datatype validation = Valid | Invalid string

text \<open>\<open>validateRequest\<close>: the five checks in the order of the source;
  \<^verbatim>\<open>typeof x !== 'number'\<close> holds of everything but a \<open>JNum\<close>.\<close>

definition validateRequest :: "json option \<Rightarrow> validation" where
  "validateRequest body =
     (case body of
        None \<Rightarrow> Invalid ''Request body is required''
      | Some b \<Rightarrow>
          if \<not> truthy b then Invalid ''Request body is required''
          else
            (case getProp b ''coords'' of
               None \<Rightarrow> Invalid ''Coordinates are required''
             | Some coords \<Rightarrow>
                 if \<not> truthy coords then Invalid ''Coordinates are required''
                 else
                   (case (getProp coords ''lat'', getProp coords ''lng'') of
                      (Some (JNum lat), Some (JNum lng)) \<Rightarrow>
                        if lat < - 90 \<or> lat > 90
                        then Invalid ''Latitude must be between -90 and 90''
                        else if lng < - 180 \<or> lng > 180
                        then Invalid ''Longitude must be between -180 and 180''
                        else Valid
                    | _ \<Rightarrow> Invalid ''Coordinates must be valid numbers'')))"

text \<open>The first step of the controller's \<open>getAreaInsights\<close>: an invalid body is answered
  at once with status 400 and the code \<open>VALIDATION_ERROR\<close>.\<close>

record error_reply =
  status :: nat
  error :: string
  message :: string
  code :: string

definition validationReply :: "json option \<Rightarrow> error_reply option" where
  "validationReply body =
     (case validateRequest body of
        Valid \<Rightarrow> None
      | Invalid m \<Rightarrow>
          Some \<lparr>status = 400, error = ''Invalid request data'', message = m,
                code = ''VALIDATION_ERROR''\<rparr>)"

subsection \<open>The cache key\<close>

record coords =
  lat :: real
  lng :: real

text \<open>\<^verbatim>\<open>Math.round\<close>: the nearest integer, a tie going up.\<close>

definition mathRound :: "real \<Rightarrow> int" where
  "mathRound x = \<lfloor>x + 1 / 2\<rfloor>"

text \<open>
  Coordinates are binary64 numbers and \<^verbatim>\<open>coords.lat * 1000\<close> is a binary64
  multiplication: the exact product, rounded to the nearest binary64 number, a tie going
  to the even significand. \<open>binary64 x\<close> is that rounding of a real \<open>x\<close> of magnitude
  below \<open>2^1024\<close> (a validated coordinate times 1000 is below \<open>2^18\<close>): the spacing of
  the binary64 numbers around \<open>x\<close> is \<open>2^(e - 52)\<close> for the binary exponent \<open>e\<close> of
  \<open>x\<close>, and \<open>2^(-1074)\<close> below \<open>2^(-1022)\<close>. A decimal of a JSON body is read as
  the binary64 number nearest to it.
\<close>

definition roundHalfEven :: "real \<Rightarrow> int" where
  "roundHalfEven x =
     (let f = \<lfloor>x\<rfloor>; r = x - of_int f
      in if r < 1 / 2 then f else if r > 1 / 2 then f + 1 else if even f then f else f + 1)"

definition binary64 :: "real \<Rightarrow> real" where
  "binary64 x =
     (if x = 0 then 0
      else
        (let e = max \<lfloor>log 2 \<bar>x\<bar>\<rfloor> (- 1022);
             ulp = 2 powr (of_int (e - 52))
         in of_int (roundHalfEven (x / ulp)) * ulp))"

text \<open>
  The template literal prints numbers in decimal. \<open>showNat\<close> prints a natural number,
  \<open>showThousandths k\<close> prints the binary64 quotient \<open>k / 1000\<close>, whose shortest decimal
  that reads back as the same number is \<open>k / 1000\<close> itself: a minus sign when negative, the
  integer part, and the up to three decimals without trailing zeros (no decimal point
  when there are none; zero, also a negative zero, prints as 0).
\<close>

definition digitChar :: "nat \<Rightarrow> char" where
  "digitChar d = ''0123456789'' ! d"

fun showNat :: "nat \<Rightarrow> string" where
  "showNat n = (if n < 10 then [digitChar n] else showNat (n div 10) @ [digitChar (n mod 10)])"

declare showNat.simps [simp del]

definition fracDigits :: "nat \<Rightarrow> string" where
  "fracDigits f =
     (if f mod 100 = 0 then [digitChar (f div 100)]
      else if f mod 10 = 0 then [digitChar (f div 100), digitChar (f div 10 mod 10)]
      else [digitChar (f div 100), digitChar (f div 10 mod 10), digitChar (f mod 10)])"

definition showThousandths :: "int \<Rightarrow> string" where
  "showThousandths k =
     (let a = nat \<bar>k\<bar>; whole = a div 1000; frac = a mod 1000
      in (if k < 0 then ''-'' else [])
         @ showNat whole
         @ (if frac = 0 then [] else ''.'' @ fracDigits frac))"

text \<open>
  \<^verbatim>\<open>generateCacheKey(coords, radius = 3000)\<close>. The rounded coordinate
  \<^verbatim>\<open>Math.round(coords.lat * 1000) / 1000\<close> is held as its integer number of thousandths.
\<close>

definition generateCacheKey :: "coords \<Rightarrow> nat option \<Rightarrow> string" where
  "generateCacheKey c radius =
     (let r = (case radius of None \<Rightarrow> 3000 | Some r \<Rightarrow> r);
          latK = mathRound (binary64 (lat c * 1000));
          lngK = mathRound (binary64 (lng c * 1000))
      in showThousandths latK @ ''_'' @ showThousandths lngK @ ''_'' @ showNat r)"

subsection \<open>The places lookup: one search and the five-category bundle\<close>

text \<open>
  What one \<^verbatim>\<open>axios.get\<close> to the provider's nearby search ends in: the request itself
  fails (network error, timeout) with a message, or the provider answers with a status,
  possibly a result list and possibly an error message. The provider is a function of the
  search location, the radius and the optional type.
\<close>

datatype provider_outcome =
  RequestFailed string
  | ProviderReply string "place list option" "string option"

type_synonym places_api = "coords \<Rightarrow> nat \<Rightarrow> string option \<Rightarrow> provider_outcome"

text \<open>
  \<open>searchNearbyPlaces\<close>: a status other than \<open>OK\<close> and \<open>ZERO_RESULTS\<close> raises; every
  error of the \<^verbatim>\<open>try\<close> block is raised again with the prefix of the \<^verbatim>\<open>catch\<close>
  block. \<^verbatim>\<open>if (type) params.type = type\<close> sends no type for an empty string;
  \<^verbatim>\<open>response.data.results || []\<close> and \<^verbatim>\<open>error_message || 'Unknown error'\<close> take their
  defaults.
\<close>

definition searchNearbyPlaces ::
  "places_api \<Rightarrow> coords \<Rightarrow> string option \<Rightarrow> nat \<Rightarrow> js_error + place list" where
  "searchNearbyPlaces api c type radius =
     (let sentType = (case type of None \<Rightarrow> None | Some t \<Rightarrow> if t = [] then None else Some t)
      in case api c radius sentType of
           RequestFailed msg \<Rightarrow> Inl (Error (''Failed to search nearby places: '' @ msg))
         | ProviderReply st results errorMessage \<Rightarrow>
             if st \<noteq> ''OK'' \<and> st \<noteq> ''ZERO_RESULTS''
             then Inl (Error (''Failed to search nearby places: ''
                      @ ''Google Places API error: '' @ st @ '' - ''
                      @ (case errorMessage of
                           None \<Rightarrow> ''Unknown error''
                         | Some m \<Rightarrow> if m = [] then ''Unknown error'' else m)))
             else Inr (case results of None \<Rightarrow> [] | Some rs \<Rightarrow> rs))"

text \<open>
  \<^verbatim>\<open>Promise.allSettled\<close> turns the outcome of each search into a settled result and
  never rejects; \<open>processResult\<close> keeps the first ten results of a fulfilled search and
  replaces a rejected one by the empty list.
\<close>

datatype 'a settled = Fulfilled 'a | Rejected js_error

definition settle :: "js_error + 'a \<Rightarrow> 'a settled" where
  "settle r = (case r of Inl e \<Rightarrow> Rejected e | Inr v \<Rightarrow> Fulfilled v)"

definition processResult :: "place list settled \<Rightarrow> place list" where
  "processResult r = (case r of Fulfilled v \<Rightarrow> take 10 v | Rejected _ \<Rightarrow> [])"

record area_data =
  landmarks :: "place list"
  restaurants :: "place list"
  attractions :: "place list"
  entertainment :: "place list"
  shopping :: "place list"
  coordinates :: coords
  searchRadius :: nat
  timestamp :: string

text \<open>
  \<open>getAreaInsights\<close> of the places service, for a service configured with
  \<open>defaultRadius\<close> and a clock reading \<open>isoNow\<close>. The five searches are independent
  calls; their settled results are processed one by one. Nothing in the \<^verbatim>\<open>try\<close>
  block raises, so the result is always \<open>Inr\<close>.
\<close>

definition getAreaInsights :: "places_api \<Rightarrow> nat \<Rightarrow> string \<Rightarrow> coords \<Rightarrow> js_error + area_data" where
  "getAreaInsights api defaultRadius isoNow c =
     (let landmarksR = settle (searchNearbyPlaces api c (Some ''establishment'') defaultRadius);
          restaurantsR = settle (searchNearbyPlaces api c (Some ''restaurant'') defaultRadius);
          attractionsR =
            settle (searchNearbyPlaces api c (Some ''tourist_attraction'') defaultRadius);
          entertainmentR = settle (searchNearbyPlaces api c (Some ''night_club'') defaultRadius);
          shoppingR = settle (searchNearbyPlaces api c (Some ''shopping_mall'') defaultRadius)
      in Inr \<lparr>landmarks = processResult landmarksR,
              restaurants = processResult restaurantsR,
              attractions = processResult attractionsR,
              entertainment = processResult entertainmentR,
              shopping = processResult shoppingR,
              coordinates = c,
              searchRadius = defaultRadius,
              timestamp = isoNow\<rparr>)"

text \<open>The five categories of the bundle with the type each one searches for.\<close>

definition bundleCategories :: "(string \<times> (area_data \<Rightarrow> place list)) list" where
  "bundleCategories =
     [(''establishment'', landmarks), (''restaurant'', restaurants),
      (''tourist_attraction'', attractions), (''night_club'', entertainment),
      (''shopping_mall'', shopping)]"

subsection \<open>The document store\<close>

text \<open>
  A Firestore collection, with the two ways a call on it fails: \<^verbatim>\<open>getDb()\<close> throws
  when the database was never initialised, and an awaited document operation may reject.
  \<open>faults\<close> lists, for the document operations still to come, whether each of them
  rejects; an operation takes the head of the list (no fault when the list is empty).
\<close>

record 'd collection =
  initialized :: bool
  faults :: "bool list"
  documents :: "string \<rightharpoonup> 'd"

definition nextFault :: "'d collection \<Rightarrow> bool \<times> 'd collection" where
  "nextFault db = (case faults db of [] \<Rightarrow> (False, db) | f # fs \<Rightarrow> (f, db\<lparr>faults := fs\<rparr>))"

definition docGet :: "'d collection \<Rightarrow> string \<Rightarrow> (js_error + 'd option) \<times> 'd collection" where
  "docGet db k =
     (case nextFault db of
        (True, db') \<Rightarrow> (Inl (Error ''store unavailable''), db')
      | (False, db') \<Rightarrow> (Inr (documents db' k), db'))"

definition docSet :: "'d collection \<Rightarrow> string \<Rightarrow> 'd \<Rightarrow> (js_error + unit) \<times> 'd collection" where
  "docSet db k d =
     (case nextFault db of
        (True, db') \<Rightarrow> (Inl (Error ''store unavailable''), db')
      | (False, db') \<Rightarrow> (Inr (), db'\<lparr>documents := (documents db')(k \<mapsto> d)\<rparr>))"

definition docDelete :: "'d collection \<Rightarrow> string \<Rightarrow> (js_error + unit) \<times> 'd collection" where
  "docDelete db k =
     (case nextFault db of
        (True, db') \<Rightarrow> (Inl (Error ''store unavailable''), db')
      | (False, db') \<Rightarrow> (Inr (), db'\<lparr>documents := (documents db')(k := None)\<rparr>))"

subsection \<open>The area cache\<close>

text \<open>Dates are milliseconds since the epoch.\<close>

record cache_entry =
  areaData :: area_data
  cachedAt :: int
  accessCount :: nat
  lastAccessed :: int

text \<open>\<^verbatim>\<open>this.cacheTTL = parseInt(process.env.CACHE_TTL_HOURS) || 24\<close>, in hours.\<close>

definition cacheTTLOf :: "int option \<Rightarrow> int" where
  "cacheTTLOf env = orInt env 24"

text \<open>
  \<open>getCachedAreaData\<close>, for a service with TTL \<open>cacheTTL\<close> and the clock at \<open>now\<close>.
  Every error of the \<^verbatim>\<open>try\<close> block (from \<^verbatim>\<open>getDb\<close>, from the read, from the delete) is
  caught and answered with null, which is \<open>None\<close>; the function returns the payload or
  \<open>None\<close>, and the store as the call leaves it.
\<close>

definition getCachedAreaData ::
  "int \<Rightarrow> int \<Rightarrow> cache_entry collection \<Rightarrow> string
     \<Rightarrow> area_data option \<times> cache_entry collection" where
  "getCachedAreaData cacheTTL now db cacheKey =
     (if \<not> initialized db then (None, db)
      else
        (case docGet db cacheKey of
           (Inl e, db1) \<Rightarrow> (None, db1)
         | (Inr None, db1) \<Rightarrow> (None, db1)
         | (Inr (Some entry), db1) \<Rightarrow>
             (let cacheAge = now - cachedAt entry;
                  maxAge = cacheTTL * 60 * 60 * 1000
              in if cacheAge > maxAge
                 then (case docDelete db1 cacheKey of
                         (Inl e, db2) \<Rightarrow> (None, db2)
                       | (Inr u, db2) \<Rightarrow> (None, db2))
                 else (Some (areaData entry), db1))))"

text \<open>
  \<open>cacheAreaData\<close>: the entry is stamped with two readings of the clock and written
  without merge; an error is logged and swallowed.
\<close>

definition cacheAreaData ::
  "int \<Rightarrow> int \<Rightarrow> cache_entry collection \<Rightarrow> string \<Rightarrow> area_data \<Rightarrow> cache_entry collection" where
  "cacheAreaData now1 now2 db cacheKey data =
     (if \<not> initialized db then db
      else
        (let cacheEntry =
               \<lparr>areaData = data, cachedAt = now1, accessCount = 1, lastAccessed = now2\<rparr>
         in case docSet db cacheKey cacheEntry of
              (Inl e, db1) \<Rightarrow> db1
            | (Inr u, db1) \<Rightarrow> db1))"

subsection \<open>The preference store\<close>

text \<open>
  A preference document is an object whose properties hold strings, string arrays,
  booleans, numbers or dates. An object spread \<^verbatim>\<open>{...a, ...b}\<close> is \<open>a ++ b\<close>: the
  properties of \<open>b\<close> override those of \<open>a\<close>.
\<close>

datatype pref_value =
  PStr string
  | PList "string list"
  | PBool bool
  | PNum int
  | PDate int

type_synonym pref_doc = "string \<rightharpoonup> pref_value"

fun truthyPref :: "pref_value \<Rightarrow> bool" where
  "truthyPref (PStr s) = (s \<noteq> [])"
| "truthyPref (PList _) = True"
| "truthyPref (PBool b) = b"
| "truthyPref (PNum n) = (n \<noteq> 0)"
| "truthyPref (PDate _) = True"

text \<open>\<^verbatim>\<open>x || d\<close> on a property that may be absent.\<close>

definition orPref :: "pref_value option \<Rightarrow> pref_value \<Rightarrow> pref_value" where
  "orPref x d = (case x of None \<Rightarrow> d | Some v \<Rightarrow> if truthyPref v then v else d)"

text \<open>\<open>defaultPreferences\<close> of a service constructed at time \<open>t0\<close>.\<close>

definition defaultPreferences :: "int \<Rightarrow> pref_doc" where
  "defaultPreferences t0 =
     [''interests'' \<mapsto> PList [''restaurant'', ''tourist_attraction'', ''shopping_mall''],
      ''ageGroup'' \<mapsto> PStr ''adult'',
      ''activityTypes'' \<mapsto> PList [''sightseeing'', ''dining'', ''shopping''],
      ''preferredEnvironment'' \<mapsto> PStr ''mixed'',
      ''priceRange'' \<mapsto> PStr ''medium'',
      ''timePreference'' \<mapsto> PStr ''flexible'',
      ''groupSize'' \<mapsto> PStr ''small'',
      ''accessibilityNeeds'' \<mapsto> PBool False,
      ''createdAt'' \<mapsto> PDate t0,
      ''updatedAt'' \<mapsto> PDate t0]"

text \<open>\<^verbatim>\<open>set(data, { merge: true })\<close>: the properties of \<open>data\<close> are written over those of
  the stored document, which keeps its other properties; a missing document is created.\<close>

definition docSetMerge ::
  "pref_doc collection \<Rightarrow> string \<Rightarrow> pref_doc \<Rightarrow> (js_error + unit) \<times> pref_doc collection" where
  "docSetMerge db k d =
     (case nextFault db of
        (True, db') \<Rightarrow> (Inl (Error ''store unavailable''), db')
      | (False, db') \<Rightarrow>
          (Inr (),
           db'\<lparr>documents :=
                 (documents db')(k \<mapsto> (case documents db' k of None \<Rightarrow> d | Some old \<Rightarrow> old ++ d))\<rparr>))"

text \<open>
  \<open>getUserPreferences\<close>: the defaults when there is no user id, no stored document,
  or an error; otherwise the stored document over the defaults, with \<open>updatedAt\<close> taken
  from the document or, failing that, from the clock.
\<close>

definition getUserPreferences ::
  "int \<Rightarrow> int \<Rightarrow> pref_doc collection \<Rightarrow> string option \<Rightarrow> pref_doc \<times> pref_doc collection" where
  "getUserPreferences t0 now db userId =
     (case userId of
        None \<Rightarrow> (defaultPreferences t0, db)
      | Some uid \<Rightarrow>
          if uid = [] then (defaultPreferences t0, db)
          else if \<not> initialized db then (defaultPreferences t0, db)
          else
            (case docGet db uid of
               (Inl e, db1) \<Rightarrow> (defaultPreferences t0, db1)
             | (Inr None, db1) \<Rightarrow> (defaultPreferences t0, db1)
             | (Inr (Some preferences), db1) \<Rightarrow>
                 ((defaultPreferences t0 ++ preferences)
                    (''updatedAt'' \<mapsto> orPref (preferences ''updatedAt'') (PDate now)),
                  db1)))"

text \<open>
  \<open>saveUserPreferences\<close>: the given preferences over the defaults, stamped with the user
  id, \<open>updatedAt\<close> and \<open>createdAt\<close>, written with merge; an error is raised again with a
  prefix.
\<close>

definition saveUserPreferences ::
  "int \<Rightarrow> int \<Rightarrow> pref_doc collection \<Rightarrow> string \<Rightarrow> pref_doc
     \<Rightarrow> (js_error + pref_doc) \<times> pref_doc collection" where
  "saveUserPreferences t0 now db userId preferences =
     (if \<not> initialized db
      then (Inl (Error (''Failed to save user preferences: ''
                  @ ''Firebase not initialized. Call initializeFirebase() first.'')), db)
      else
        (let preferencesToSave =
               (defaultPreferences t0 ++ preferences)
                 (''userId'' \<mapsto> PStr userId,
                  ''updatedAt'' \<mapsto> PDate now,
                  ''createdAt'' \<mapsto> orPref (preferences ''createdAt'') (PDate now))
         in case docSetMerge db userId preferencesToSave of
              (Inl (Error m), db1) \<Rightarrow>
                (Inl (Error (''Failed to save user preferences: '' @ m)), db1)
            | (Inr u, db1) \<Rightarrow> (Inr preferencesToSave, db1)))"

text \<open>
  \<open>validatePreferences\<close> of the controller. The outcome records the check that failed
  and the offending data, from which the source formats its message.
\<close>

datatype pref_validation =
  PrefsValid
  | PrefsRequired
  | InvalidInterests "string list"
  | InvalidAgeGroup pref_value
  | InvalidEnvironment pref_value
  | InvalidPriceRange pref_value

definition getAvailableInterests :: "string list" where
  "getAvailableInterests = map fst interestMapping"

definition getAvailableAgeGroups :: "string list" where
  "getAvailableAgeGroups = map fst ageGroupPreferences"

definition includesPref :: "string list \<Rightarrow> pref_value \<Rightarrow> bool" where
  "includesPref xs v = (case v of PStr s \<Rightarrow> s \<in> set xs | _ \<Rightarrow> False)"

text \<open>A property fails its check when it is present and truthy and is not one of the
  allowed strings.\<close>

definition rejected :: "string list \<Rightarrow> pref_value option \<Rightarrow> pref_value option" where
  "rejected allowed x =
     (case x of
        None \<Rightarrow> None
      | Some v \<Rightarrow> if truthyPref v \<and> \<not> includesPref allowed v then Some v else None)"

definition validatePreferences :: "pref_doc option \<Rightarrow> pref_validation" where
  "validatePreferences prefs =
     (case prefs of
        None \<Rightarrow> PrefsRequired
      | Some p \<Rightarrow>
          (let invalidInterests =
                 (case p ''interests'' of
                    Some (PList xs) \<Rightarrow> filter (\<lambda>i. i \<notin> set getAvailableInterests) xs
                  | _ \<Rightarrow> [])
           in if invalidInterests \<noteq> [] then InvalidInterests invalidInterests
              else
                (case rejected getAvailableAgeGroups (p ''ageGroup'') of
                   Some v \<Rightarrow> InvalidAgeGroup v
                 | None \<Rightarrow>
                     (case rejected
                             [''quiet'', ''busy'', ''trending'', ''family-friendly'', ''mixed'']
                             (p ''preferredEnvironment'') of
                        Some v \<Rightarrow> InvalidEnvironment v
                      | None \<Rightarrow>
                          (case rejected
                                  [''budget'', ''low'', ''medium'', ''comfortable'', ''luxury'']
                                  (p ''priceRange'') of
                             Some v \<Rightarrow> InvalidPriceRange v
                           | None \<Rightarrow> PrefsValid)))))"

text \<open>
  \<open>updateUserPreferences\<close> of the controller, with the three readings of the clock it
  causes (in \<open>getUserPreferences\<close>, for the merged record, in \<open>saveUserPreferences\<close>).
  The replies are: 400 for a missing user id, 400 for a failed validation, 200 with the
  saved preferences, 500 with the message of an error. The analytics event, sent without
  waiting and with its errors swallowed, goes to another collection and is left out.
\<close>

datatype update_reply =
  MissingUserId
  | ValidationError pref_validation
  | Updated string pref_doc
  | InternalServerError string

definition updateUserPreferences ::
  "int \<Rightarrow> int \<Rightarrow> int \<Rightarrow> int \<Rightarrow> pref_doc collection \<Rightarrow> string \<Rightarrow> pref_doc option
     \<Rightarrow> update_reply \<times> pref_doc collection" where
  "updateUserPreferences t0 nowGet nowMerge nowSave db userId preferences =
     (if userId = [] then (MissingUserId, db)
      else
        (case preferences of
           None \<Rightarrow> (ValidationError (validatePreferences None), db)
         | Some p \<Rightarrow>
             if validatePreferences (Some p) \<noteq> PrefsValid
             then (ValidationError (validatePreferences (Some p)), db)
             else
               (case getUserPreferences t0 nowGet db (Some userId) of
                  (existingPreferences, db1) \<Rightarrow>
                    (let mergedPreferences =
                           (existingPreferences ++ p)(''updatedAt'' \<mapsto> PDate nowMerge)
                     in case saveUserPreferences t0 nowSave db1 userId mergedPreferences of
                          (Inl (Error m), db2) \<Rightarrow> (InternalServerError m, db2)
                        | (Inr savedPreferences, db2) \<Rightarrow>
                            (Updated userId savedPreferences, db2)))))"

text \<open>A stored record is complete when it has every default property, the user id under
  which it is stored, and a truthy \<open>createdAt\<close>: what \<open>saveUserPreferences\<close> writes.\<close>

definition completeRecord :: "int \<Rightarrow> string \<Rightarrow> pref_doc \<Rightarrow> bool" where
  "completeRecord t0 uid S \<longleftrightarrow>
     dom (defaultPreferences t0) \<subseteq> dom S
     \<and> S ''userId'' = Some (PStr uid)
     \<and> (\<exists>v. S ''createdAt'' = Some v \<and> truthyPref v)"

text \<open>The property \<open>f\<close> of the document stored for user \<open>uid\<close>.\<close>

definition storedField :: "pref_doc collection \<Rightarrow> string \<Rightarrow> string \<Rightarrow> pref_value option" where
  "storedField db uid f = (case documents db uid of None \<Rightarrow> None | Some d \<Rightarrow> d f)"

section \<open>Example inputs\<close>

text \<open>Concrete inputs at which the theorems below are instantiated.\<close>

definition diner :: place where
  "diner = \<lparr>place_id = ''p1'', rating = Some 4, user_ratings_total = None, price_level = None,
     types = [''restaurant''], business_status = None\<rparr>"


definition foodie :: preferences where
  "foodie = \<lparr>interests = [''food''], ageGroup = ''senior'', preferredEnvironment = ''quiet'',
     priceRange = ''low'', timePreference = ''morning'', maxResults = None\<rparr>"

definition noon :: request_ctx where
  "noon = \<lparr>currentTime = Some 12\<rparr>"







definition thrifty :: preferences where
  "thrifty = foodie\<lparr>priceRange := ''budget''\<rparr>"

definition snackBar :: place where
  "snackBar = \<lparr>place_id = ''snackBar'', rating = Some 4, user_ratings_total = None,
     price_level = Some 0, types = [''cafe''], business_status = None\<rparr>"

definition coordsBody :: "json \<Rightarrow> json \<Rightarrow> json option" where
  "coordsBody la lo = Some (JObj [(''coords'', JObj [(''lat'', la), (''lng'', lo)])])"

text \<open>Coordinates as a request carries them: the binary64 numbers nearest the decimals.\<close>

definition nearA :: coords where
  "nearA = \<lparr>lat = binary64 (4 / 10000), lng = binary64 0\<rparr>"

definition nearB :: coords where
  "nearB = \<lparr>lat = binary64 (6 / 10000), lng = binary64 0\<rparr>"

definition nycA :: coords where
  "nycA = \<lparr>lat = binary64 (407128 / 10000), lng = binary64 (- 740060 / 10000)\<rparr>"

definition nycB :: coords where
  "nycB = \<lparr>lat = binary64 (407134 / 10000), lng = binary64 (- 740064 / 10000)\<rparr>"

definition numbered :: "nat \<Rightarrow> place" where
  "numbered n = \<lparr>place_id = showNat n, rating = None, user_ratings_total = None,
     price_level = None, types = [], business_status = None\<rparr>"

text \<open>A provider that denies the restaurant search, finds twelve shopping malls and one
  place for every other type.\<close>

definition flakyApi :: places_api where
  "flakyApi c radius type =
     (if type = Some ''restaurant''
      then ProviderReply ''REQUEST_DENIED'' None (Some ''quota'')
      else if type = Some ''shopping_mall''
      then ProviderReply ''OK'' (Some (map numbered [0..<12])) None
      else ProviderReply ''OK'' (Some [diner]) None)"

definition sampleArea :: area_data where
  "sampleArea = \<lparr>landmarks = [diner], restaurants = [], attractions = [], entertainment = [],
     shopping = [], coordinates = nycA, searchRadius = 3000,
     timestamp = ''2024-01-01T00:00:00.000Z''\<rparr>"

definition readyDb :: "cache_entry collection" where
  "readyDb = \<lparr>initialized = True, faults = [], documents = Map.empty\<rparr>"

definition downDb :: "cache_entry collection" where
  "downDb = \<lparr>initialized = True, faults = [True], documents = Map.empty\<rparr>"

definition sampleEntry :: cache_entry where
  "sampleEntry = \<lparr>areaData = sampleArea, cachedAt = 0, accessCount = 1, lastAccessed = 0\<rparr>"

definition warmDb :: "cache_entry collection" where
  "warmDb = \<lparr>initialized = True, faults = [],
     documents = [''40.713_-74.006_3000'' \<mapsto> sampleEntry]\<rparr>"

definition storedPrefs :: pref_doc where
  "storedPrefs =
     [''interests'' \<mapsto> PList [''food''],
      ''ageGroup'' \<mapsto> PStr ''adult'',
      ''activityTypes'' \<mapsto> PList [''dining''],
      ''preferredEnvironment'' \<mapsto> PStr ''quiet'',
      ''priceRange'' \<mapsto> PStr ''low'',
      ''timePreference'' \<mapsto> PStr ''evening'',
      ''groupSize'' \<mapsto> PStr ''small'',
      ''accessibilityNeeds'' \<mapsto> PBool False,
      ''createdAt'' \<mapsto> PDate 100,
      ''updatedAt'' \<mapsto> PDate 100,
      ''userId'' \<mapsto> PStr ''u1'']"

definition prefsDb :: "pref_doc collection" where
  "prefsDb = \<lparr>initialized = True, faults = [], documents = [''u1'' \<mapsto> storedPrefs]\<rparr>"

section \<open>Properties\<close>

subsection \<open>Price-level score\<close>

lemma getPriceLevelScore_listed_nonzero:
  "(r, i) \<in> set priceMapping \<Longrightarrow> i \<noteq> 0 \<Longrightarrow>
   getPriceLevelScore l r = Number (of_int (max 0 (2 - \<bar>l - i\<bar>)))"
  by (auto simp: getPriceLevelScore_def priceMapping_def lookupMember_def orInt_def)

text \<open>
  C3. The claim gives the price-level score as \<open>max(0, 2 - |priceLevel - index|)\<close> with
  budget at index 0. The table of the code lists budget at 0 as well, but the lookup
  \<^verbatim>\<open>priceMapping[userPriceRange] || 2\<close> replaces that 0 by the default 2: for a place of
  price level 0 and a budget user the code returns 0 where the formula gives 2 (and for
  price level 2 it returns 2 where the formula gives 0).
\<close>

theorem getPriceLevelScore_budget_divergence:
  "getPriceLevelScore 0 ''budget'' = Number 0 \<and> max 0 (2 - \<bar>0 - 0\<bar>) = (2::int)
   \<and> getPriceLevelScore 2 ''budget'' = Number 2 \<and> max 0 (2 - \<bar>2 - 0\<bar>) = (0::int)"
  by (simp add: getPriceLevelScore_def priceMapping_def lookupMember_def orInt_def)

subsection \<open>Primary category\<close>

lemma firstIncluded_Some:
  "firstIncluded (pre @ t # post) ts = Some t" if "t \<in> set ts" "set pre \<inter> set ts = {}"
  using that by (induction pre) auto

lemma firstIncluded_None: "set ps \<inter> set ts = {} \<Longrightarrow> firstIncluded ps ts = None"
  by (induction ps) auto

text \<open>
  C9 (as stated). The claim has \<open>getPrimaryPlaceType\<close> return "general" for an empty tag
  list. The code returns "establishment" there.
\<close>

theorem getPrimaryPlaceType_empty_counterexample:
  "getPrimaryPlaceType [] = ''establishment'' \<and> getPrimaryPlaceType [] \<noteq> ''general''"
  by (simp add: getPrimaryPlaceType_def primaryTypes_def)

text \<open>
  C9 (amended). \<open>getPrimaryPlaceType\<close> returns the first entry of the ordered priority
  list that occurs among the place's tags; when none occurs it returns the place's first
  tag, provided that tag is a non-empty string; when the tag list is empty, or no
  priority entry occurs and the first tag is the empty string, it returns
  "establishment".
\<close>

theorem getPrimaryPlaceType_spec:
  "(primaryTypes = pre @ t # post \<and> t \<in> set ts \<and> set pre \<inter> set ts = {}
      \<longrightarrow> getPrimaryPlaceType ts = t)
   \<and> (set primaryTypes \<inter> set (t0 # rest) = {} \<and> t0 \<noteq> []
      \<longrightarrow> getPrimaryPlaceType (t0 # rest) = t0)
   \<and> (set primaryTypes \<inter> set ([] # rest) = {}
      \<longrightarrow> getPrimaryPlaceType ([] # rest) = ''establishment'')
   \<and> getPrimaryPlaceType [] = ''establishment''"
proof -
  have a: "getPrimaryPlaceType ts = t"
    if "primaryTypes = pre @ t # post" "t \<in> set ts" "set pre \<inter> set ts = {}"
    using that firstIncluded_Some [of t ts pre post] by (simp add: getPrimaryPlaceType_def)
  have b: "getPrimaryPlaceType (t0 # rest) = t0"
    if "set primaryTypes \<inter> set (t0 # rest) = {}" "t0 \<noteq> []"
    using that firstIncluded_None [of primaryTypes "t0 # rest"]
    by (simp add: getPrimaryPlaceType_def)
  have c: "getPrimaryPlaceType ([] # rest) = ''establishment''"
    if "set primaryTypes \<inter> set ([] # rest) = {}"
    using that firstIncluded_None [of primaryTypes "[] # rest"]
    by (simp add: getPrimaryPlaceType_def)
  have d: "getPrimaryPlaceType [] = ''establishment''"
    by (simp add: getPrimaryPlaceType_def firstIncluded_None)
  from a b c d show ?thesis by blast
qed

theorem getPrimaryPlaceType_spec_witness:
  "getPrimaryPlaceType [''bar'', ''zoo'', ''museum''] = ''museum''
   \<and> getPrimaryPlaceType [''zoo'', ''bank''] = ''zoo''
   \<and> getPrimaryPlaceType ['''', ''bank''] = ''establishment''"
proof -
  note spec = getPrimaryPlaceType_spec
    [of "[''restaurant'', ''tourist_attraction'', ''shopping_mall'']" "''museum''"
        "[''park'', ''night_club'', ''bar'', ''cafe'', ''amusement_park'']"
        "[''bar'', ''zoo'', ''museum'']" "''zoo''" "[''bank'']"]
  have p: "primaryTypes =
      [''restaurant'', ''tourist_attraction'', ''shopping_mall''] @ ''museum'' #
      [''park'', ''night_club'', ''bar'', ''cafe'', ''amusement_park'']"
    by (simp add: primaryTypes_def)
  have h1: "''museum'' \<in> set [''bar'', ''zoo'', ''museum'']" by simp
  have h2: "set [''restaurant'', ''tourist_attraction'', ''shopping_mall'']
      \<inter> set [''bar'', ''zoo'', ''museum''] = {}" by simp
  have h3: "set primaryTypes \<inter> set [''zoo'', ''bank''] = {}"
    by (simp add: primaryTypes_def)
  have h4: "''zoo'' \<noteq> []" by simp
  have h5: "set primaryTypes \<inter> set ['''', ''bank''] = {}"
    by (simp add: primaryTypes_def)
  from spec p h1 h2 have 1: "getPrimaryPlaceType [''bar'', ''zoo'', ''museum''] = ''museum''"
    by blast
  from spec h3 h4 have 2: "getPrimaryPlaceType [''zoo'', ''bank''] = ''zoo''"
    by blast
  from spec h5 have 3: "getPrimaryPlaceType ['''', ''bank''] = ''establishment''"
    by blast
  from 1 2 3 show ?thesis by blast
qed

subsection \<open>Hourly activity curve\<close>

lemma clamp_bounds: "10 \<le> min 100 (max 10 (b::int)) \<and> min 100 (max 10 b) \<le> 100"
  by simp

lemma calculateHourlyActivity_bounds:
  "10 \<le> calculateHourlyActivity h places \<and> calculateHourlyActivity h places \<le> 100"
  unfolding calculateHourlyActivity_def Let_def by (rule clamp_bounds)

text \<open>
  C10. For every list of places, \<open>generateHourlyActivity\<close> returns exactly 24 entries,
  one per hour 0 through 23 in order, and every entry's activity level lies between 10
  and 100 inclusive.
\<close>

theorem generateHourlyActivity_shape:
  "length (generateHourlyActivity places) = 24
   \<and> map hour (generateHourlyActivity places) = [0..<24]
   \<and> (\<forall>e \<in> set (generateHourlyActivity places).
         10 \<le> activityLevel e \<and> activityLevel e \<le> 100)"
proof -
  have "map hour (generateHourlyActivity places) = [0..<24]"
    unfolding generateHourlyActivity_def by (simp add: comp_def)
  moreover have "\<forall>e \<in> set (generateHourlyActivity places).
      10 \<le> activityLevel e \<and> activityLevel e \<le> 100"
    unfolding generateHourlyActivity_def using calculateHourlyActivity_bounds by auto
  ultimately show ?thesis by (simp add: generateHourlyActivity_def)
qed

theorem generateHourlyActivity_shape_witness:
  "\<lparr>hour = 19, activityLevel = 100\<rparr> \<in> set (generateHourlyActivity [diner])
   \<and> \<lparr>hour = 3, activityLevel = 30\<rparr> \<in> set (generateHourlyActivity [diner])
   \<and> length (generateHourlyActivity [diner]) = 24"
proof -
  have a: "\<lparr>hour = 19, activityLevel = calculateHourlyActivity 19 [diner]\<rparr>
      \<in> set (generateHourlyActivity [diner])"
    unfolding generateHourlyActivity_def by (simp del: upt_Suc)
  have b: "\<lparr>hour = 3, activityLevel = calculateHourlyActivity 3 [diner]\<rparr>
      \<in> set (generateHourlyActivity [diner])"
    unfolding generateHourlyActivity_def by simp
  have c: "calculateHourlyActivity 19 [diner] = 100" "calculateHourlyActivity 3 [diner] = 30"
    by (simp_all add: calculateHourlyActivity_def diner_def)
  from generateHourlyActivity_shape [of "[diner]"]
  have "length (generateHourlyActivity [diner]) = 24" by blast
  with a b c show ?thesis by simp
qed

subsection \<open>The personalization engine: scores\<close>






























lemma getRelevantPlaceTypes_food:
  "getRelevantPlaceTypes [''food''] =
     Inr [''restaurant'', ''cafe'', ''bakery'', ''meal_takeaway'', ''meal_delivery'']"
  by (simp add: getRelevantPlaceTypes_def lookupMember_def interestMapping_def setAdd_def)

lemma specRelevantTags_food:
  "specRelevantTags [''food''] =
     {''restaurant'', ''cafe'', ''bakery'', ''meal_takeaway'', ''meal_delivery''}"
  by (simp add: specRelevantTags_def interestMapping_def)




text \<open>
  A budget user and a place of price level 0: the price-level term of the code is 0 where
  the sum of the specification has 2 (the \<^verbatim>\<open>|| 2\<close> of \<open>getPriceLevelScore\<close>), so the
  code assigns 13 where the sum is 15. The statement below leaves the budget range out.
\<close>

lemma scoredPlaces_budget_divergence:
  "map_sum id (map personalizedScore) (scoredPlaces [snackBar] thrifty noon) = Inr [Number 13]
   \<and> specScore thrifty 12 snackBar = 15"
proof
  have "getRelevantPlaceTypes (interests thrifty) =
      Inr [''restaurant'', ''cafe'', ''bakery'', ''meal_takeaway'', ''meal_delivery'']"
    by (simp add: thrifty_def foodie_def getRelevantPlaceTypes_food)
  moreover have "ageGroupPrefsOf thrifty =
      Own \<lparr>priorityTypes = [''museum'', ''park'', ''restaurant'', ''library''],
         timePreference = ''morning'', priceRange = ''comfortable''\<rparr>"
    by (simp add: ageGroupPrefsOf_def lookupMember_def ageGroupPreferences_def thrifty_def
        foodie_def)
  moreover have "getPriceLevelScore 0 (preferences.priceRange thrifty) = Number 0"
    by (simp add: getPriceLevelScore_def priceMapping_def lookupMember_def orInt_def
        thrifty_def)
  ultimately
  show "map_sum id (map personalizedScore) (scoredPlaces [snackBar] thrifty noon)
      = Inr [Number 13]"
    by (simp add: scoredPlaces_def scorePlace_def filterPriority_def Let_def snackBar_def
        noon_def orReal_def orNat_def getEnvironmentScore_def getTimeScore_def thrifty_def
        foodie_def)
  show "specScore thrifty 12 snackBar = 15"
    by (simp add: specScore_def snackBar_def thrifty_def foodie_def specRelevantTags_food
        specPriorityTags_def ageGroupPreferences_def specPriceLevelScore_def
        specPriceIndex_def specEnvironmentScore_def specTimeScore_def specWindows_def
        inWindow_def)
qed



subsection \<open>The personalization engine: filter, sort and cap\<close>













subsection \<open>Request validation\<close>

lemma validateRequest_Valid_imp:
  assumes "validateRequest body = Valid"
  shows "\<exists>kvs cs la lo. body = Some (JObj kvs) \<and> map_of kvs ''coords'' = Some (JObj cs)
           \<and> map_of cs ''lat'' = Some (JNum la) \<and> map_of cs ''lng'' = Some (JNum lo)
           \<and> - 90 \<le> la \<and> la \<le> 90 \<and> - 180 \<le> lo \<and> lo \<le> 180"
proof -
  from assms obtain b where b: "body = Some b" "truthy b"
    by (auto simp: validateRequest_def split: option.splits if_splits)
  from assms b obtain coords where c: "getProp b ''coords'' = Some coords" "truthy coords"
    by (auto simp: validateRequest_def split: option.splits if_splits)
  from assms b c obtain la lo where
    l: "getProp coords ''lat'' = Some (JNum la)" "getProp coords ''lng'' = Some (JNum lo)"
    by (auto simp: validateRequest_def split: option.splits if_splits json.splits)
  from assms b c l have r: "- 90 \<le> la \<and> la \<le> 90 \<and> - 180 \<le> lo \<and> lo \<le> 180"
    by (auto simp: validateRequest_def split: if_splits)
  from c(1) obtain kvs where k: "b = JObj kvs" by (cases b) auto
  from l(1) obtain cs where cs: "coords = JObj cs" by (cases coords) auto
  from b k c cs l r show ?thesis by auto
qed

lemma validateRequest_Valid_if:
  assumes "body = Some (JObj kvs)" "map_of kvs ''coords'' = Some (JObj cs)"
    "map_of cs ''lat'' = Some (JNum la)" "map_of cs ''lng'' = Some (JNum lo)"
    "- 90 \<le> la" "la \<le> 90" "- 180 \<le> lo" "lo \<le> 180"
  shows "validateRequest body = Valid"
  using assms by (simp add: validateRequest_def)

text \<open>
  C8. Coordinate validation accepts exactly the bodies whose \<open>coords\<close> object has numeric
  \<open>lat\<close> in [-90, 90] and numeric \<open>lng\<close> in [-180, 180]; every other body is answered
  with a validation error (status 400, code \<open>VALIDATION_ERROR\<close>). \<open>{lat: 90.0001, lng: 0}\<close>
  is rejected, \<open>{lat: 90, lng: 180}\<close> is accepted, and a missing or non-numeric coordinate is
  rejected.
\<close>

theorem validateRequest_exact:
  "(validateRequest body = Valid \<longleftrightarrow>
      (\<exists>kvs cs la lo. body = Some (JObj kvs) \<and> map_of kvs ''coords'' = Some (JObj cs)
         \<and> map_of cs ''lat'' = Some (JNum la) \<and> map_of cs ''lng'' = Some (JNum lo)
         \<and> - 90 \<le> la \<and> la \<le> 90 \<and> - 180 \<le> lo \<and> lo \<le> 180))
   \<and> (validateRequest body \<noteq> Valid \<longleftrightarrow>
        (\<exists>m. validationReply body =
           Some \<lparr>status = 400, error = ''Invalid request data'', message = m,
                 code = ''VALIDATION_ERROR''\<rparr>))
   \<and> validateRequest (coordsBody (JNum (900001 / 10000)) (JNum 0))
       = Invalid ''Latitude must be between -90 and 90''
   \<and> validateRequest (coordsBody (JNum 90) (JNum 180)) = Valid
   \<and> validateRequest (coordsBody (JNum (- 90)) (JNum (- 180))) = Valid
   \<and> validateRequest (coordsBody (JNum 0) (JNum (1800001 / 10000)))
       = Invalid ''Longitude must be between -180 and 180''
   \<and> validateRequest None = Invalid ''Request body is required''
   \<and> validateRequest (Some (JObj [])) = Invalid ''Coordinates are required''
   \<and> validateRequest (Some (JObj [(''coords'', JObj [(''lat'', JNum 10)])]))
       = Invalid ''Coordinates must be valid numbers''
   \<and> validateRequest (coordsBody (JStr ''90'') (JNum 0))
       = Invalid ''Coordinates must be valid numbers''"
proof (intro conjI)
  show "validateRequest body = Valid \<longleftrightarrow>
      (\<exists>kvs cs la lo. body = Some (JObj kvs) \<and> map_of kvs ''coords'' = Some (JObj cs)
         \<and> map_of cs ''lat'' = Some (JNum la) \<and> map_of cs ''lng'' = Some (JNum lo)
         \<and> - 90 \<le> la \<and> la \<le> 90 \<and> - 180 \<le> lo \<and> lo \<le> 180)"
    using validateRequest_Valid_imp validateRequest_Valid_if by blast
  show "validateRequest body \<noteq> Valid \<longleftrightarrow>
        (\<exists>m. validationReply body =
           Some \<lparr>status = 400, error = ''Invalid request data'', message = m,
                 code = ''VALIDATION_ERROR''\<rparr>)"
    by (cases "validateRequest body") (simp_all add: validationReply_def)
qed (simp_all add: validateRequest_def coordsBody_def)

subsection \<open>The cache key\<close>

lemma showNat_3000: "showNat 3000 = ''3000''"
  by (simp add: showNat.simps digitChar_def)

lemma roundHalfEven_error: "\<bar>of_int (roundHalfEven x) - x\<bar> \<le> 1 / 2"
  unfolding roundHalfEven_def Let_def
  by (auto simp: abs_if) linarith+

lemma binary64_error: "\<bar>binary64 x - x\<bar> \<le> (\<bar>x\<bar> + 1) / 2 ^ 53"
proof (cases "x = 0")
  case True
  then show ?thesis by (simp add: binary64_def)
next
  case False
  define L where "L = \<lfloor>log 2 \<bar>x\<bar>\<rfloor>"
  define e where "e = max L (- 1022)"
  define u :: real where "u = 2 powr (of_int (e - 52))"
  have u: "0 < u" by (simp add: u_def)
  have b: "binary64 x = of_int (roundHalfEven (x / u)) * u"
    using False by (simp add: binary64_def Let_def L_def e_def u_def)
  have "binary64 x - x = (of_int (roundHalfEven (x / u)) - x / u) * u"
    using u by (simp add: b left_diff_distrib)
  then have "\<bar>binary64 x - x\<bar> = \<bar>of_int (roundHalfEven (x / u)) - x / u\<bar> * u"
    using u by (simp add: abs_mult)
  also have "\<dots> \<le> 1 / 2 * u"
    using u roundHalfEven_error [of "x / u"] by (intro mult_right_mono) simp_all
  also have "1 / 2 * u = 2 powr (of_int e - 53)"
  proof -
    have "(2::real) powr (of_int e - 53) = 2 powr (of_int (e - 52) + (- 1))" by simp
    also have "\<dots> = 2 powr (of_int (e - 52)) * 2 powr (- 1)" by (rule powr_add)
    also have "(2::real) powr (- 1) = 1 / 2" by (simp add: powr_minus inverse_eq_divide)
    finally show ?thesis by (simp add: u_def)
  qed
  finally have h: "\<bar>binary64 x - x\<bar> \<le> 2 powr (of_int e - 53)" .
  have p53: "(2::real) powr (- 53) = 1 / 2 ^ 53"
    by (simp add: powr_minus inverse_eq_divide)
  show ?thesis
  proof (cases "L \<ge> - 1022")
    case True
    then have "e = L" by (simp add: e_def)
    have "2 powr (of_int L) \<le> 2 powr (log 2 \<bar>x\<bar>)"
      by (simp add: L_def)
    also have "\<dots> = \<bar>x\<bar>" using False by simp
    finally have "2 powr (of_int L) \<le> \<bar>x\<bar>" .
    moreover have "(2::real) powr (of_int L - 53) = 2 powr (of_int L) * 2 powr (- 53)"
      using powr_add [of 2 "of_int L" "- 53"] by simp
    ultimately have "2 powr (of_int e - 53) \<le> \<bar>x\<bar> / 2 ^ 53"
      unfolding \<open>e = L\<close> p53 by (simp add: divide_right_mono)
    with h show ?thesis by (simp add: add_divide_distrib)
  next
    case False
    then have "e = - 1022" by (simp add: e_def)
    have "(2::real) powr (of_int e - 53) \<le> 2 powr (- 53)"
      unfolding \<open>e = - 1022\<close> by (intro powr_mono) simp_all
    also note p53
    finally have "(2::real) powr (of_int e - 53) \<le> 1 / 2 ^ 53" .
    with h have "\<bar>binary64 x - x\<bar> \<le> 1 / 2 ^ 53" by (rule order_trans)
    moreover have "(1::real) / 2 ^ 53 \<le> (\<bar>x\<bar> + 1) / 2 ^ 53"
      by (intro divide_right_mono) simp_all
    ultimately show ?thesis by linarith
  qed
qed

lemma pow10:
  "(10::real) ^ 10 = 10000000000" "(10::real) ^ 11 = 100000000000"
  "(10::real) ^ 13 = 10000000000000"
  by simp_all

lemma binary64_close:
  assumes "\<bar>x\<bar> \<le> 180"
  shows "x - 1 / 10 ^ 13 \<le> binary64 x" and "binary64 x \<le> x + 1 / 10 ^ 13"
proof -
  have "(\<bar>x\<bar> + 1) / 2 ^ 53 \<le> 181 / 2 ^ 53"
    using assms by (intro divide_right_mono) simp_all
  also have "(181::real) / 2 ^ 53 \<le> 1 / 10 ^ 13" by simp
  finally have "\<bar>binary64 x - x\<bar> \<le> 1 / 10 ^ 13"
    using binary64_error [of x] by linarith
  then show "x - 1 / 10 ^ 13 \<le> binary64 x" and "binary64 x \<le> x + 1 / 10 ^ 13"
    by linarith+
qed

lemma binary64_times_close:
  assumes "\<bar>x\<bar> \<le> 181"
  shows "\<bar>binary64 (x * 1000) - x * 1000\<bar> \<le> 3 / 10 ^ 11"
proof -
  have "\<bar>x * 1000\<bar> \<le> 181000" using assms by (simp add: abs_mult)
  then have "(\<bar>x * 1000\<bar> + 1) / 2 ^ 53 \<le> 181001 / 2 ^ 53"
    by (intro divide_right_mono) simp_all
  also have "(181001::real) / 2 ^ 53 \<le> 3 / 10 ^ 11" by simp
  finally show ?thesis using binary64_error [of "x * 1000"] by linarith
qed

lemma mathRound_cell:
  assumes "\<bar>x\<bar> \<le> 181"
    and "real_of_int i / 1000 - 5 / 10000 + 1 / 10 ^ 13 \<le> x"
    and "x \<le> real_of_int i / 1000 + 5 / 10000 - 1 / 10 ^ 13"
  shows "mathRound (binary64 (x * 1000)) = i"
proof -
  from assms(2,3) have "real_of_int i - 1 / 2 + 1 / 10 ^ 10 \<le> x * 1000"
    and "x * 1000 \<le> real_of_int i + 1 / 2 - 1 / 10 ^ 10"
    by (simp_all add: field_simps)
  with binary64_times_close [OF assms(1)]
  have "real_of_int i \<le> binary64 (x * 1000) + 1 / 2"
    and "binary64 (x * 1000) + 1 / 2 < real_of_int i + 1"
    unfolding pow10 by linarith+
  then show ?thesis unfolding mathRound_def by (rule floor_unique)
qed

lemma binary64_zero: "binary64 0 = 0"
  by (simp add: binary64_def)

lemma near_lats:
  "4 / 10000 - 1 / 10 ^ 13 \<le> lat nearA" "lat nearA \<le> 4 / 10000 + 1 / 10 ^ 13"
  "6 / 10000 - 1 / 10 ^ 13 \<le> lat nearB" "lat nearB \<le> 6 / 10000 + 1 / 10 ^ 13"
  using binary64_close [of "4 / 10000"] binary64_close [of "6 / 10000"]
  by (simp_all add: nearA_def nearB_def)

lemma near_lngs: "lng nearA = 0" "lng nearB = 0"
  by (simp_all add: nearA_def nearB_def binary64_zero)

lemma generateCacheKey_nearA: "generateCacheKey nearA None = ''0_0_3000''"
proof -
  have "mathRound (binary64 (lat nearA * 1000)) = 0"
  proof (rule mathRound_cell)
    show "\<bar>lat nearA\<bar> \<le> 181" using near_lats(1,2) unfolding pow10 by linarith
    show "real_of_int 0 / 1000 - 5 / 10000 + 1 / 10 ^ 13 \<le> lat nearA"
      using near_lats(1) by simp
    show "lat nearA \<le> real_of_int 0 / 1000 + 5 / 10000 - 1 / 10 ^ 13"
      using near_lats(2) by simp
  qed
  moreover have "mathRound (binary64 (lng nearA * 1000)) = 0"
    by (simp add: near_lngs binary64_zero mathRound_def)
  ultimately show ?thesis
    by (simp add: generateCacheKey_def showThousandths_def showNat.simps digitChar_def)
qed

lemma generateCacheKey_nearB: "generateCacheKey nearB None = ''0.001_0_3000''"
proof -
  have "mathRound (binary64 (lat nearB * 1000)) = 1"
  proof (rule mathRound_cell)
    show "\<bar>lat nearB\<bar> \<le> 181" using near_lats(3,4) unfolding pow10 by linarith
    show "real_of_int 1 / 1000 - 5 / 10000 + 1 / 10 ^ 13 \<le> lat nearB"
      using near_lats(3) by simp
    show "lat nearB \<le> real_of_int 1 / 1000 + 5 / 10000 - 1 / 10 ^ 13"
      using near_lats(4) by simp
  qed
  moreover have "mathRound (binary64 (lng nearB * 1000)) = 0"
    by (simp add: near_lngs binary64_zero mathRound_def)
  ultimately show ?thesis
    by (simp add: generateCacheKey_def showThousandths_def showNat.simps digitChar_def
        fracDigits_def)
qed

text \<open>
  C7 (as stated). The claim gives every two coordinates that differ by less than 0.0005
  degrees in latitude and in longitude the same key. Latitudes 0.0004 and 0.0006 differ by
  0.0002 and lie on the two sides of the cell boundary 0.0005: the keys differ.
\<close>

theorem generateCacheKey_near_counterexample:
  "\<bar>lat nearA - lat nearB\<bar> < 5 / 10000 \<and> \<bar>lng nearA - lng nearB\<bar> < 5 / 10000
   \<and> generateCacheKey nearA None = ''0_0_3000''
   \<and> generateCacheKey nearB None = ''0.001_0_3000''
   \<and> generateCacheKey nearA None \<noteq> generateCacheKey nearB None"
proof -
  have "\<bar>lat nearA - lat nearB\<bar> < 5 / 10000"
    using near_lats unfolding pow10 by linarith
  moreover have "\<bar>lng nearA - lng nearB\<bar> < 5 / 10000"
    by (simp add: near_lngs)
  ultimately show ?thesis by (simp add: generateCacheKey_nearA generateCacheKey_nearB)
qed

text \<open>
  C7 (amended). For every pair of validated coordinates (latitude in [-90, 90], longitude
  in [-180, 180]) that lie inside the same rounding cell, at least \<open>10^-13\<close> degrees from
  its edges (both latitudes between \<open>i/1000 - 0.0005 + 10^-13\<close> and
  \<open>i/1000 + 0.0005 - 10^-13\<close>, both longitudes likewise around \<open>j/1000\<close>, for integers
  \<open>i\<close> and \<open>j\<close>), and every fixed radius, the cache key function produces the same key;
  the key is derived from the coordinate rounded to three decimal degrees, \<open>i/1000\<close> and
  \<open>j/1000\<close>, plus the radius (3000 by default). The margin covers the rounding of the
  binary64 product \<open>coords.lat * 1000\<close>.
\<close>

theorem generateCacheKey_same_cell:
  "(\<forall>c \<in> {c1, c2}.
      \<bar>lat c\<bar> \<le> 90 \<and> \<bar>lng c\<bar> \<le> 180
      \<and> real_of_int i / 1000 - 5 / 10000 + 1 / 10 ^ 13 \<le> lat c
      \<and> lat c \<le> real_of_int i / 1000 + 5 / 10000 - 1 / 10 ^ 13
      \<and> real_of_int j / 1000 - 5 / 10000 + 1 / 10 ^ 13 \<le> lng c
      \<and> lng c \<le> real_of_int j / 1000 + 5 / 10000 - 1 / 10 ^ 13)
   \<longrightarrow> generateCacheKey c1 r = generateCacheKey c2 r
       \<and> generateCacheKey c1 r =
           showThousandths i @ ''_'' @ showThousandths j @ ''_''
           @ showNat (case r of None \<Rightarrow> 3000 | Some n \<Rightarrow> n)"
proof
  assume a: "\<forall>c \<in> {c1, c2}.
      \<bar>lat c\<bar> \<le> 90 \<and> \<bar>lng c\<bar> \<le> 180
      \<and> real_of_int i / 1000 - 5 / 10000 + 1 / 10 ^ 13 \<le> lat c
      \<and> lat c \<le> real_of_int i / 1000 + 5 / 10000 - 1 / 10 ^ 13
      \<and> real_of_int j / 1000 - 5 / 10000 + 1 / 10 ^ 13 \<le> lng c
      \<and> lng c \<le> real_of_int j / 1000 + 5 / 10000 - 1 / 10 ^ 13"
  have k: "generateCacheKey c r =
           showThousandths i @ ''_'' @ showThousandths j @ ''_''
           @ showNat (case r of None \<Rightarrow> 3000 | Some n \<Rightarrow> n)" if "c \<in> {c1, c2}" for c
  proof -
    from a that have "mathRound (binary64 (lat c * 1000)) = i"
      by (intro mathRound_cell) auto
    moreover from a that have "mathRound (binary64 (lng c * 1000)) = j"
      by (intro mathRound_cell) auto
    ultimately show ?thesis by (simp add: generateCacheKey_def)
  qed
  from k [of c1] k [of c2]
  show "generateCacheKey c1 r = generateCacheKey c2 r
       \<and> generateCacheKey c1 r =
           showThousandths i @ ''_'' @ showThousandths j @ ''_''
           @ showNat (case r of None \<Rightarrow> 3000 | Some n \<Rightarrow> n)"
    by simp
qed

theorem generateCacheKey_same_cell_witness:
  "generateCacheKey nycA None = generateCacheKey nycB None
   \<and> generateCacheKey nycA None = ''40.713_-74.006_3000''"
proof -
  have n: "407128 / 10000 - 1 / 10 ^ 13 \<le> lat nycA" "lat nycA \<le> 407128 / 10000 + 1 / 10 ^ 13"
    "- 740060 / 10000 - 1 / 10 ^ 13 \<le> lng nycA" "lng nycA \<le> - 740060 / 10000 + 1 / 10 ^ 13"
    "407134 / 10000 - 1 / 10 ^ 13 \<le> lat nycB" "lat nycB \<le> 407134 / 10000 + 1 / 10 ^ 13"
    "- 740064 / 10000 - 1 / 10 ^ 13 \<le> lng nycB" "lng nycB \<le> - 740064 / 10000 + 1 / 10 ^ 13"
    using binary64_close [of "407128 / 10000"] binary64_close [of "- 740060 / 10000"]
      binary64_close [of "407134 / 10000"] binary64_close [of "- 740064 / 10000"]
    by (simp_all add: nycA_def nycB_def)
  have ha: "\<bar>lat nycA\<bar> \<le> 90 \<and> \<bar>lng nycA\<bar> \<le> 180
      \<and> real_of_int 40713 / 1000 - 5 / 10000 + 1 / 10 ^ 13 \<le> lat nycA
      \<and> lat nycA \<le> real_of_int 40713 / 1000 + 5 / 10000 - 1 / 10 ^ 13
      \<and> real_of_int (- 74006) / 1000 - 5 / 10000 + 1 / 10 ^ 13 \<le> lng nycA
      \<and> lng nycA \<le> real_of_int (- 74006) / 1000 + 5 / 10000 - 1 / 10 ^ 13"
    using n(1-4) unfolding pow10 by (intro conjI) linarith+
  have hb: "\<bar>lat nycB\<bar> \<le> 90 \<and> \<bar>lng nycB\<bar> \<le> 180
      \<and> real_of_int 40713 / 1000 - 5 / 10000 + 1 / 10 ^ 13 \<le> lat nycB
      \<and> lat nycB \<le> real_of_int 40713 / 1000 + 5 / 10000 - 1 / 10 ^ 13
      \<and> real_of_int (- 74006) / 1000 - 5 / 10000 + 1 / 10 ^ 13 \<le> lng nycB
      \<and> lng nycB \<le> real_of_int (- 74006) / 1000 + 5 / 10000 - 1 / 10 ^ 13"
    using n(5-8) unfolding pow10 by (intro conjI) linarith+
  from ha hb have h: "\<forall>c \<in> {nycA, nycB}.
      \<bar>lat c\<bar> \<le> 90 \<and> \<bar>lng c\<bar> \<le> 180
      \<and> real_of_int 40713 / 1000 - 5 / 10000 + 1 / 10 ^ 13 \<le> lat c
      \<and> lat c \<le> real_of_int 40713 / 1000 + 5 / 10000 - 1 / 10 ^ 13
      \<and> real_of_int (- 74006) / 1000 - 5 / 10000 + 1 / 10 ^ 13 \<le> lng c
      \<and> lng c \<le> real_of_int (- 74006) / 1000 + 5 / 10000 - 1 / 10 ^ 13"
    by blast
  have s: "showThousandths 40713 @ ''_'' @ showThousandths (- 74006) @ ''_''
      @ showNat (case None of None \<Rightarrow> 3000 | Some n \<Rightarrow> n) = ''40.713_-74.006_3000''"
    by (simp add: showThousandths_def showNat.simps digitChar_def fracDigits_def)
  from generateCacheKey_same_cell [of nycA nycB 40713 "- 74006" None] h
  have "generateCacheKey nycA None = generateCacheKey nycB None
       \<and> generateCacheKey nycA None =
           showThousandths 40713 @ ''_'' @ showThousandths (- 74006) @ ''_''
           @ showNat (case None of None \<Rightarrow> 3000 | Some n \<Rightarrow> n)"
    by (rule mp)
  then have e: "generateCacheKey nycA None = generateCacheKey nycB None"
    and k: "generateCacheKey nycA None =
           showThousandths 40713 @ ''_'' @ showThousandths (- 74006) @ ''_''
           @ showNat (case None of None \<Rightarrow> 3000 | Some n \<Rightarrow> n)"
    by blast+
  from k s have "generateCacheKey nycA None = ''40.713_-74.006_3000''"
    by (rule trans)
  with e show ?thesis by (rule conjI)
qed

subsection \<open>The five-category bundle\<close>

lemma processResult_settle:
  "processResult (settle r) = (case r of Inl e \<Rightarrow> [] | Inr rs \<Rightarrow> take 10 rs)"
  by (simp add: processResult_def settle_def split: sum.splits)

text \<open>
  C6. For every coordinate and provider behaviour, \<open>getAreaInsights\<close> returns a bundle
  (it never fails); for each of the five categories, when the category's search fails the
  category's list is empty, and when it succeeds the list is the first 10 provider results
  in provider order (at most 10, a prefix of the provider's list), whatever the other
  searches did. The five searches are modelled by their settled outcomes.
\<close>

theorem getAreaInsights_partial_failure:
  "\<exists>bundle. getAreaInsights api radius isoNow c = Inr bundle
     \<and> (\<forall>(t, category) \<in> set bundleCategories.
           (case searchNearbyPlaces api c (Some t) radius of
              Inl e \<Rightarrow> category bundle = []
            | Inr rs \<Rightarrow> category bundle = take 10 rs \<and> length (category bundle) \<le> 10
                        \<and> prefix (category bundle) rs))"
  by (simp add: getAreaInsights_def Let_def bundleCategories_def processResult_settle
      take_is_prefix split: sum.splits)


lemma flakyApi_searches:
  "searchNearbyPlaces flakyApi c (Some ''restaurant'') r
     = Inl (Error ''Failed to search nearby places: Google Places API error: REQUEST_DENIED - quota'')"
  "searchNearbyPlaces flakyApi c (Some ''establishment'') r = Inr [diner]"
  "searchNearbyPlaces flakyApi c (Some ''tourist_attraction'') r = Inr [diner]"
  "searchNearbyPlaces flakyApi c (Some ''night_club'') r = Inr [diner]"
  "searchNearbyPlaces flakyApi c (Some ''shopping_mall'') r = Inr (map numbered [0..<12])"
  by (simp_all add: searchNearbyPlaces_def flakyApi_def)

theorem getAreaInsights_partial_failure_witness:
  "\<exists>bundle. getAreaInsights flakyApi 3000 ''2024-01-01T00:00:00.000Z'' nycA = Inr bundle
     \<and> restaurants bundle = []
     \<and> landmarks bundle = [diner] \<and> attractions bundle = [diner]
     \<and> entertainment bundle = [diner]
     \<and> shopping bundle = map numbered [0..<10]"
proof -
  from getAreaInsights_partial_failure [of flakyApi 3000 "''2024-01-01T00:00:00.000Z''" nycA]
  obtain bd where
    b: "getAreaInsights flakyApi 3000 ''2024-01-01T00:00:00.000Z'' nycA = Inr bd"
    and each: "\<forall>(t, category) \<in> set bundleCategories.
           (case searchNearbyPlaces flakyApi nycA (Some t) 3000 of
              Inl e \<Rightarrow> category bd = []
            | Inr rs \<Rightarrow> category bd = take 10 rs \<and> length (category bd) \<le> 10
                        \<and> prefix (category bd) rs)"
    by blast
  have m: "(''restaurant'', restaurants) \<in> set bundleCategories"
    "(''establishment'', landmarks) \<in> set bundleCategories"
    "(''tourist_attraction'', attractions) \<in> set bundleCategories"
    "(''night_club'', entertainment) \<in> set bundleCategories"
    "(''shopping_mall'', shopping) \<in> set bundleCategories"
    by (simp_all add: bundleCategories_def)
  have t: "take 10 (map numbered [0..<12]) = map numbered [0..<10]"
    by (simp add: take_map)
  from each m(1) have "restaurants bd = []"
    by (auto simp: flakyApi_searches)
  moreover from each m(2) have "landmarks bd = [diner]"
    by (auto simp: flakyApi_searches)
  moreover from each m(3) have "attractions bd = [diner]"
    by (auto simp: flakyApi_searches)
  moreover from each m(4) have "entertainment bd = [diner]"
    by (auto simp: flakyApi_searches)
  moreover from each m(5) have "shopping bd = map numbered [0..<10]"
    by (auto simp: flakyApi_searches t simp del: upt_Suc)
  ultimately show ?thesis using b by blast
qed

subsection \<open>The area cache\<close>

lemma getCachedAreaData_read_ok:
  assumes "initialized db" and "\<not> fst (nextFault db)"
  shows "fst (getCachedAreaData ttl now db k) =
     (case documents db k of
        None \<Rightarrow> None
      | Some e \<Rightarrow> if now - cachedAt e > ttl * 60 * 60 * 1000 then None else Some (areaData e))"
  using assms
  by (auto simp: getCachedAreaData_def docGet_def docDelete_def nextFault_def Let_def
      split: list.splits option.splits prod.splits bool.splits sum.splits)


lemma getCachedAreaData_expired:
  assumes "initialized db" and "True \<notin> set (take 2 (faults db))"
    and "documents db k = Some e" and "now - cachedAt e > ttl * 60 * 60 * 1000"
  shows "getCachedAreaData ttl now db k =
     (None, db\<lparr>faults := drop 2 (faults db), documents := (documents db)(k := None)\<rparr>)"
proof (cases "faults db")
  case Nil
  with assms show ?thesis
    by (simp add: getCachedAreaData_def docGet_def docDelete_def nextFault_def Let_def)
next
  case (Cons f fs)
  with assms have f: "f = False" by auto
  show ?thesis
  proof (cases fs)
    case Nil
    with Cons f assms show ?thesis
      by (simp add: getCachedAreaData_def docGet_def docDelete_def nextFault_def Let_def)
  next
    case (Cons g gs)
    with \<open>faults db = f # fs\<close> assms have g: "g = False" by auto
    from Cons \<open>faults db = f # fs\<close> f g assms show ?thesis
      by (simp add: getCachedAreaData_def docGet_def docDelete_def nextFault_def Let_def)
  qed
qed

lemma getCachedAreaData_delete_fails:
  assumes "initialized db" and "faults db = False # True # fs"
    and "documents db k = Some e" and "now - cachedAt e > ttl * 60 * 60 * 1000"
  shows "getCachedAreaData ttl now db k = (None, db\<lparr>faults := fs\<rparr>)"
  using assms
  by (simp add: getCachedAreaData_def docGet_def docDelete_def nextFault_def Let_def)

lemma getCachedAreaData_unavailable:
  assumes "\<not> initialized db \<or> fst (nextFault db)"
  shows "fst (getCachedAreaData ttl now db k) = None
     \<and> documents (snd (getCachedAreaData ttl now db k)) = documents db"
  using assms
  by (auto simp: getCachedAreaData_def docGet_def nextFault_def
      split: list.splits prod.splits bool.splits)

lemma cacheAreaData_written:
  assumes "initialized db" and "True \<notin> set (take 2 (faults db))"
  shows "initialized (cacheAreaData now1 now2 db k v)
     \<and> \<not> fst (nextFault (cacheAreaData now1 now2 db k v))
     \<and> documents (cacheAreaData now1 now2 db k v) k
         = Some \<lparr>areaData = v, cachedAt = now1, accessCount = 1, lastAccessed = now2\<rparr>"
proof (cases "faults db")
  case Nil
  with assms show ?thesis
    by (simp add: cacheAreaData_def docSet_def nextFault_def Let_def)
next
  case (Cons f fs)
  with assms have "f = False" by auto
  with Cons assms show ?thesis
    by (cases fs) (auto simp: cacheAreaData_def docSet_def nextFault_def Let_def)
qed

text \<open>
  C5. With the store reachable for the read, \<open>getCachedAreaData\<close> returns the stored
  payload if and only if the entry exists and its age \<open>now - cachedAt\<close> is at most the TTL
  (\<open>cacheTTL\<close> hours in milliseconds); an entry older than the TTL is deleted and \<open>None\<close>
  is returned; on a storage failure (database not initialised, the read rejects, or the
  delete of an expired entry rejects) the result is \<open>None\<close>, never an error, and no
  document changes; and a get that follows a successful put of \<open>v\<close> under the same key,
  within the TTL, returns \<open>v\<close>.
\<close>

theorem getCachedAreaData_contract:
  "(initialized db \<and> \<not> fst (nextFault db) \<longrightarrow>
      (fst (getCachedAreaData ttl now db k) = Some v \<longleftrightarrow>
         (\<exists>e. documents db k = Some e \<and> areaData e = v
              \<and> now - cachedAt e \<le> ttl * 60 * 60 * 1000)))
   \<and> (initialized db \<and> True \<notin> set (take 2 (faults db)) \<and> documents db k = Some e
        \<and> now - cachedAt e > ttl * 60 * 60 * 1000 \<longrightarrow>
      getCachedAreaData ttl now db k =
        (None, db\<lparr>faults := drop 2 (faults db), documents := (documents db)(k := None)\<rparr>))
   \<and> (\<not> initialized db \<or> fst (nextFault db) \<longrightarrow>
      fst (getCachedAreaData ttl now db k) = None
      \<and> documents (snd (getCachedAreaData ttl now db k)) = documents db)
   \<and> (initialized db \<and> faults db = False # True # fs \<and> documents db k = Some e
        \<and> now - cachedAt e > ttl * 60 * 60 * 1000 \<longrightarrow>
      getCachedAreaData ttl now db k = (None, db\<lparr>faults := fs\<rparr>))
   \<and> (initialized db \<and> True \<notin> set (take 2 (faults db))
        \<and> now - now1 \<le> ttl * 60 * 60 * 1000 \<longrightarrow>
      fst (getCachedAreaData ttl now (cacheAreaData now1 now2 db k v) k) = Some v)"
proof (intro conjI impI)
  assume "initialized db \<and> \<not> fst (nextFault db)"
  then show "fst (getCachedAreaData ttl now db k) = Some v \<longleftrightarrow>
         (\<exists>e. documents db k = Some e \<and> areaData e = v
              \<and> now - cachedAt e \<le> ttl * 60 * 60 * 1000)"
    by (auto simp: getCachedAreaData_read_ok split: option.splits if_splits)
next
  assume "initialized db \<and> True \<notin> set (take 2 (faults db)) \<and> documents db k = Some e
        \<and> now - cachedAt e > ttl * 60 * 60 * 1000"
  then show "getCachedAreaData ttl now db k =
        (None, db\<lparr>faults := drop 2 (faults db), documents := (documents db)(k := None)\<rparr>)"
    by (simp add: getCachedAreaData_expired)
next
  assume a: "\<not> initialized db \<or> fst (nextFault db)"
  from getCachedAreaData_unavailable [OF a]
  show "fst (getCachedAreaData ttl now db k) = None"
    and "documents (snd (getCachedAreaData ttl now db k)) = documents db"
    by simp_all
next
  assume "initialized db \<and> faults db = False # True # fs \<and> documents db k = Some e
        \<and> now - cachedAt e > ttl * 60 * 60 * 1000"
  then show "getCachedAreaData ttl now db k = (None, db\<lparr>faults := fs\<rparr>)"
    by (simp add: getCachedAreaData_delete_fails)
next
  assume a: "initialized db \<and> True \<notin> set (take 2 (faults db))
        \<and> now - now1 \<le> ttl * 60 * 60 * 1000"
  then have "initialized (cacheAreaData now1 now2 db k v)
     \<and> \<not> fst (nextFault (cacheAreaData now1 now2 db k v))
     \<and> documents (cacheAreaData now1 now2 db k v) k
         = Some \<lparr>areaData = v, cachedAt = now1, accessCount = 1, lastAccessed = now2\<rparr>"
    by (simp add: cacheAreaData_written)
  with a show "fst (getCachedAreaData ttl now (cacheAreaData now1 now2 db k v) k) = Some v"
    by (simp add: getCachedAreaData_read_ok)
qed


theorem getCachedAreaData_contract_witness:
  "fst (getCachedAreaData 24 86400000 warmDb ''40.713_-74.006_3000'') = Some sampleArea
   \<and> getCachedAreaData 24 86400001 warmDb ''40.713_-74.006_3000'' = (None, readyDb)
   \<and> fst (getCachedAreaData 24 1000 downDb ''40.713_-74.006_3000'') = None
   \<and> getCachedAreaData 24 86400001 (warmDb\<lparr>faults := [False, True]\<rparr>) ''40.713_-74.006_3000''
       = (None, warmDb)
   \<and> fst (getCachedAreaData 24 1000
          (cacheAreaData 0 5 readyDb ''40.713_-74.006_3000'' sampleArea)
          ''40.713_-74.006_3000'') = Some sampleArea"
proof -
  let ?k = "''40.713_-74.006_3000''"
  have e: "documents warmDb ?k = Some sampleEntry" "cachedAt sampleEntry = 0"
    "areaData sampleEntry = sampleArea"
    by (simp_all add: warmDb_def sampleEntry_def)
  have w: "initialized warmDb" "faults warmDb = []" "\<not> fst (nextFault warmDb)"
    by (simp_all add: warmDb_def nextFault_def)
  have 1: "fst (getCachedAreaData 24 86400000 warmDb ?k) = Some sampleArea"
    using getCachedAreaData_contract [of warmDb 24 86400000 ?k sampleArea] e w
    by auto
  have "getCachedAreaData 24 86400001 warmDb ?k =
        (None, warmDb\<lparr>faults := drop 2 (faults warmDb),
                       documents := (documents warmDb)(?k := None)\<rparr>)"
    using getCachedAreaData_contract [of warmDb 24 86400001 ?k _ sampleEntry] e w
    by simp
  moreover have "warmDb\<lparr>faults := drop 2 (faults warmDb),
                       documents := (documents warmDb)(?k := None)\<rparr> = readyDb"
    by (simp add: warmDb_def readyDb_def)
  ultimately have 2: "getCachedAreaData 24 86400001 warmDb ?k = (None, readyDb)"
    by simp
  have d: "\<not> initialized downDb \<or> fst (nextFault downDb)"
    by (simp add: downDb_def nextFault_def)
  have 3: "fst (getCachedAreaData 24 1000 downDb ?k) = None"
    using getCachedAreaData_contract [of downDb 24 1000 ?k] d by blast
  let ?f = "warmDb\<lparr>faults := [False, True]\<rparr>"
  have f: "initialized ?f" "faults ?f = False # True # []" "documents ?f ?k = Some sampleEntry"
    "?f\<lparr>faults := []\<rparr> = warmDb"
    by (simp_all add: warmDb_def)
  have 4: "getCachedAreaData 24 86400001 ?f ?k = (None, warmDb)"
    using getCachedAreaData_contract [of ?f 24 86400001 ?k _ sampleEntry "[]"] f e(2)
    by simp
  have r: "initialized readyDb" "True \<notin> set (take 2 (faults readyDb))"
    by (simp_all add: readyDb_def)
  have 5: "fst (getCachedAreaData 24 1000 (cacheAreaData 0 5 readyDb ?k sampleArea) ?k)
      = Some sampleArea"
    using getCachedAreaData_contract [of readyDb 24 1000 ?k sampleArea _ _ 0 5] r
    by simp
  from 1 2 3 4 5 show ?thesis by blast
qed

subsection \<open>The preference store\<close>

lemma nextFault_ok:
  assumes "True \<notin> set (take 2 (faults db))"
  shows "\<not> fst (nextFault db)" and "\<not> fst (nextFault (snd (nextFault db)))"
  using assms by (auto simp: nextFault_def split: list.splits)

lemma nextFault_keeps [simp]:
  "documents (snd (nextFault db)) = documents db"
  "initialized (snd (nextFault db)) = initialized db"
  by (simp_all add: nextFault_def split: list.splits)

lemma docGet_ok:
  "\<not> fst (nextFault db) \<Longrightarrow> docGet db k = (Inr (documents db k), snd (nextFault db))"
  using nextFault_keeps(1) [of db] by (cases "nextFault db") (auto simp: docGet_def)

lemma docSetMerge_ok:
  "\<not> fst (nextFault db) \<Longrightarrow>
   docSetMerge db k d =
     (Inr (), (snd (nextFault db))
        \<lparr>documents :=
           (documents db)(k \<mapsto> (case documents db k of None \<Rightarrow> d | Some old \<Rightarrow> old ++ d))\<rparr>)"
  using nextFault_keeps(1) [of db] by (cases "nextFault db") (auto simp: docSetMerge_def)

lemma map_add_covered: "dom D \<subseteq> dom S \<Longrightarrow> D ++ S = S"
  by (rule ext) (auto simp: map_add_def split: option.splits)

lemma validatePreferences_ageGroup_only:
  "a \<in> set getAvailableAgeGroups \<Longrightarrow> validatePreferences (Some [''ageGroup'' \<mapsto> PStr a]) = PrefsValid"
  by (simp add: validatePreferences_def rejected_def includesPref_def)


lemma nextFault_twice:
  assumes "True \<notin> set (take 2 (faults db))"
  shows "snd (nextFault (snd (nextFault db))) = db\<lparr>faults := drop 2 (faults db)\<rparr>"
proof (cases "faults db")
  case Nil
  then show ?thesis by (simp add: nextFault_def)
next
  case (Cons f fs)
  then show ?thesis by (cases fs) (simp_all add: nextFault_def)
qed

lemma getUserPreferences_stored:
  assumes "initialized db" "\<not> fst (nextFault db)" "uid \<noteq> []" "documents db uid = Some S"
  shows "getUserPreferences t0 n1 db (Some uid) =
     ((defaultPreferences t0 ++ S)(''updatedAt'' \<mapsto> orPref (S ''updatedAt'') (PDate n1)),
      snd (nextFault db))"
  using assms by (simp add: getUserPreferences_def docGet_ok)

lemma saveUserPreferences_ok:
  assumes "initialized db" "\<not> fst (nextFault db)"
    and "T = (defaultPreferences t0 ++ P)
                 (''userId'' \<mapsto> PStr uid, ''updatedAt'' \<mapsto> PDate n,
                  ''createdAt'' \<mapsto> orPref (P ''createdAt'') (PDate n))"
  shows "saveUserPreferences t0 n db uid P =
     (Inr T,
      (snd (nextFault db))
        \<lparr>documents :=
           (documents db)(uid \<mapsto> (case documents db uid of None \<Rightarrow> T | Some old \<Rightarrow> old ++ T))\<rparr>)"
  using assms(1,2) unfolding assms(3)
  by (simp add: saveUserPreferences_def docSetMerge_ok Let_def)

lemma updateUserPreferences_general:
  assumes "initialized db" "True \<notin> set (take 2 (faults db))" "uid \<noteq> []"
    and "a \<in> set getAvailableAgeGroups" and "documents db uid = Some S"
    and "E = (defaultPreferences t0 ++ S)(''updatedAt'' \<mapsto> orPref (S ''updatedAt'') (PDate n1))"
    and "M = (E ++ [''ageGroup'' \<mapsto> PStr a])(''updatedAt'' \<mapsto> PDate n2)"
    and "T = (defaultPreferences t0 ++ M)
                 (''userId'' \<mapsto> PStr uid, ''updatedAt'' \<mapsto> PDate n3,
                  ''createdAt'' \<mapsto> orPref (M ''createdAt'') (PDate n3))"
  shows "updateUserPreferences t0 n1 n2 n3 db uid (Some [''ageGroup'' \<mapsto> PStr a]) =
     (Updated uid T,
      db\<lparr>faults := drop 2 (faults db), documents := (documents db)(uid \<mapsto> S ++ T)\<rparr>)"
proof -
  note nf = nextFault_ok [OF assms(2)]
  let ?db1 = "snd (nextFault db)"
  have g: "getUserPreferences t0 n1 db (Some uid) = (E, ?db1)"
    using assms by (simp add: getUserPreferences_stored nf)
  have s: "saveUserPreferences t0 n3 ?db1 uid M =
     (Inr T, (snd (nextFault ?db1))\<lparr>documents := (documents db)(uid \<mapsto> S ++ T)\<rparr>)"
    using saveUserPreferences_ok [of ?db1 T t0 M uid n3] assms nf by simp
  have v: "validatePreferences (Some [''ageGroup'' \<mapsto> PStr a]) = PrefsValid"
    using assms(4) by (rule validatePreferences_ageGroup_only)
  have m: "E(''ageGroup'' \<mapsto> PStr a, ''updatedAt'' \<mapsto> PDate n2) = M"
    using assms(7) by simp
  show ?thesis
    unfolding updateUserPreferences_def
    using assms(3) by (simp add: v g m s Let_def nextFault_twice [OF assms(2)])
qed


lemma saveUserPreferences_complete:
  assumes "initialized db" "\<not> fst (nextFault db)"
  shows "\<exists>S. documents (snd (saveUserPreferences t0 n db uid P)) uid = Some S
             \<and> completeRecord t0 uid S"
proof -
  define T where "T = (defaultPreferences t0 ++ P)
                 (''userId'' \<mapsto> PStr uid, ''updatedAt'' \<mapsto> PDate n,
                  ''createdAt'' \<mapsto> orPref (P ''createdAt'') (PDate n))"
  have c: "completeRecord t0 uid (old ++ T)" for old
    by (auto simp: completeRecord_def T_def orPref_def split: option.splits)
  from c [of Map.empty] have "completeRecord t0 uid T" by simp
  with c saveUserPreferences_ok [OF assms T_def] show ?thesis
    by (simp split: option.splits)
qed

text \<open>
  When the read of the stored record rejects, \<open>getUserPreferences\<close> answers with the
  defaults, the update is laid over them and saved: the reply is 200 and the stored
  interests [food] are replaced by the default interests.
\<close>

lemma updateUserPreferences_read_rejects:
  "storedField (prefsDb\<lparr>faults := [True]\<rparr>) ''u1'' ''interests'' = Some (PList [''food''])
   \<and> (\<exists>saved. fst (updateUserPreferences 0 200 201 202 (prefsDb\<lparr>faults := [True]\<rparr>) ''u1''
                      (Some [''ageGroup'' \<mapsto> PStr ''senior''])) = Updated ''u1'' saved)
   \<and> storedField
        (snd (updateUserPreferences 0 200 201 202 (prefsDb\<lparr>faults := [True]\<rparr>) ''u1''
               (Some [''ageGroup'' \<mapsto> PStr ''senior''])))
        ''u1'' ''interests''
       = Some (PList [''restaurant'', ''tourist_attraction'', ''shopping_mall''])"
proof -
  let ?p = "[''ageGroup'' \<mapsto> PStr ''senior'']"
  let ?M = "(defaultPreferences 0)(''ageGroup'' \<mapsto> PStr ''senior'', ''updatedAt'' \<mapsto> PDate 201)"
  define T where "T = (defaultPreferences 0 ++ ?M)
                 (''userId'' \<mapsto> PStr ''u1'', ''updatedAt'' \<mapsto> PDate 202,
                  ''createdAt'' \<mapsto> orPref (?M ''createdAt'') (PDate 202))"
  have v: "validatePreferences (Some ?p) = PrefsValid"
    by (rule validatePreferences_ageGroup_only)
      (simp add: getAvailableAgeGroups_def ageGroupPreferences_def)
  have g: "getUserPreferences 0 200 (prefsDb\<lparr>faults := [True]\<rparr>) (Some ''u1'')
      = (defaultPreferences 0, prefsDb\<lparr>faults := []\<rparr>)"
    by (simp add: getUserPreferences_def docGet_def nextFault_def prefsDb_def)
  have i: "initialized (prefsDb\<lparr>faults := []\<rparr>)" "\<not> fst (nextFault (prefsDb\<lparr>faults := []\<rparr>))"
    by (simp_all add: prefsDb_def nextFault_def)
  note s = saveUserPreferences_ok [OF i T_def]
  have r: "updateUserPreferences 0 200 201 202 (prefsDb\<lparr>faults := [True]\<rparr>) ''u1'' (Some ?p)
      = (Updated ''u1'' T,
         (snd (nextFault (prefsDb\<lparr>faults := []\<rparr>)))
           \<lparr>documents := (documents (prefsDb\<lparr>faults := []\<rparr>))
               (''u1'' \<mapsto> (case documents (prefsDb\<lparr>faults := []\<rparr>) ''u1'' of
                             None \<Rightarrow> T | Some old \<Rightarrow> old ++ T))\<rparr>)"
    by (simp add: updateUserPreferences_def v g s)
  have t: "T ''interests'' = Some (PList [''restaurant'', ''tourist_attraction'', ''shopping_mall''])"
    by (simp add: T_def defaultPreferences_def)
  show ?thesis
    unfolding r
    by (simp add: storedField_def prefsDb_def storedPrefs_def t map_add_def)
qed

text \<open>
  C4 (as stated). The claim has a save of \<open>{ageGroup: "senior"}\<close> leave the stored
  \<open>interests\<close> unchanged. \<open>saveUserPreferences\<close> called with that partial record lays it
  over the defaults and writes every default property: the stored interests [food] become
  the default interests.
\<close>

theorem saveUserPreferences_partial_counterexample:
  "storedField prefsDb ''u1'' ''interests'' = Some (PList [''food''])
   \<and> storedField
        (snd (saveUserPreferences 0 200 prefsDb ''u1'' [''ageGroup'' \<mapsto> PStr ''senior'']))
        ''u1'' ''interests''
       = Some (PList [''restaurant'', ''tourist_attraction'', ''shopping_mall''])"
proof -
  have "initialized prefsDb" "\<not> fst (nextFault prefsDb)"
    by (simp_all add: prefsDb_def nextFault_def)
  from saveUserPreferences_ok [OF this refl, where ?t0.0 = 0 and uid = "''u1''" and n = 200
      and P = "[''ageGroup'' \<mapsto> PStr ''senior'']"]
  show ?thesis
    by (simp add: storedField_def prefsDb_def storedPrefs_def defaultPreferences_def)
qed

text \<open>
  C4 (amended). For every user with a non-empty id and an existing stored preference
  record, and provided the store is initialised and neither the read nor the write of the
  update rejects, the update path \<open>updateUserPreferences\<close> (read the stored record, lay
  the partial update over it, save), given a partial update that contains only a valid
  \<open>ageGroup\<close>, leaves the stored \<open>interests\<close> unchanged and sets \<open>ageGroup\<close> and
  \<open>updatedAt\<close>; when the stored record is complete (as every record written by
  \<open>saveUserPreferences\<close> is), the stored record changes in \<open>ageGroup\<close> and
  \<open>updatedAt\<close> only, and the returned record is the stored record overridden by the
  supplied field, with \<open>updatedAt\<close> stamped. Nothing is stated for a store that fails
  (see \<open>updateUserPreferences_read_rejects\<close>).
\<close>

theorem updateUserPreferences_ageGroup_only:
  "(initialized db \<and> True \<notin> set (take 2 (faults db)) \<and> uid \<noteq> []
      \<and> a \<in> set getAvailableAgeGroups \<and> documents db uid = Some S
      \<and> S ''interests'' = Some i \<longrightarrow>
      storedField (snd (updateUserPreferences t0 n1 n2 n3 db uid (Some [''ageGroup'' \<mapsto> PStr a])))
          uid ''interests'' = Some i
      \<and> storedField (snd (updateUserPreferences t0 n1 n2 n3 db uid (Some [''ageGroup'' \<mapsto> PStr a])))
          uid ''ageGroup'' = Some (PStr a)
      \<and> storedField (snd (updateUserPreferences t0 n1 n2 n3 db uid (Some [''ageGroup'' \<mapsto> PStr a])))
          uid ''updatedAt'' = Some (PDate n3)
      \<and> (\<exists>saved. fst (updateUserPreferences t0 n1 n2 n3 db uid (Some [''ageGroup'' \<mapsto> PStr a]))
                    = Updated uid saved
                 \<and> saved ''interests'' = Some i \<and> saved ''ageGroup'' = Some (PStr a)))
   \<and> (initialized db \<and> True \<notin> set (take 2 (faults db)) \<and> uid \<noteq> []
      \<and> a \<in> set getAvailableAgeGroups \<and> documents db uid = Some S
      \<and> completeRecord t0 uid S \<longrightarrow>
      updateUserPreferences t0 n1 n2 n3 db uid (Some [''ageGroup'' \<mapsto> PStr a]) =
        (Updated uid (S(''ageGroup'' \<mapsto> PStr a, ''updatedAt'' \<mapsto> PDate n3)),
         db\<lparr>faults := drop 2 (faults db),
            documents :=
              (documents db)(uid \<mapsto> S(''ageGroup'' \<mapsto> PStr a, ''updatedAt'' \<mapsto> PDate n3))\<rparr>))"
proof (intro conjI impI)
  define E where
    "E = (defaultPreferences t0 ++ S)(''updatedAt'' \<mapsto> orPref (S ''updatedAt'') (PDate n1))"
  define M where "M = (E ++ [''ageGroup'' \<mapsto> PStr a])(''updatedAt'' \<mapsto> PDate n2)"
  define T where "T = (defaultPreferences t0 ++ M)
                 (''userId'' \<mapsto> PStr uid, ''updatedAt'' \<mapsto> PDate n3,
                  ''createdAt'' \<mapsto> orPref (M ''createdAt'') (PDate n3))"
  let ?r = "updateUserPreferences t0 n1 n2 n3 db uid (Some [''ageGroup'' \<mapsto> PStr a])"
  {
    assume h: "initialized db \<and> True \<notin> set (take 2 (faults db)) \<and> uid \<noteq> []
      \<and> a \<in> set getAvailableAgeGroups \<and> documents db uid = Some S
      \<and> S ''interests'' = Some i"
    then have r: "?r = (Updated uid T,
        db\<lparr>faults := drop 2 (faults db), documents := (documents db)(uid \<mapsto> S ++ T)\<rparr>)"
      using updateUserPreferences_general [OF _ _ _ _ _ E_def M_def T_def] by blast
    have t: "T ''interests'' = Some i" "T ''ageGroup'' = Some (PStr a)"
      "T ''updatedAt'' = Some (PDate n3)"
      using h by (simp_all add: T_def M_def E_def map_add_def)
    show "storedField (snd ?r) uid ''interests'' = Some i"
      by (simp add: r storedField_def t map_add_def)
    show "storedField (snd ?r) uid ''ageGroup'' = Some (PStr a)"
      by (simp add: r storedField_def t map_add_def)
    show "storedField (snd ?r) uid ''updatedAt'' = Some (PDate n3)"
      by (simp add: r storedField_def t map_add_def)
    show "\<exists>saved. fst ?r = Updated uid saved
                 \<and> saved ''interests'' = Some i \<and> saved ''ageGroup'' = Some (PStr a)"
      by (simp add: r t)
  }
  assume h: "initialized db \<and> True \<notin> set (take 2 (faults db)) \<and> uid \<noteq> []
      \<and> a \<in> set getAvailableAgeGroups \<and> documents db uid = Some S
      \<and> completeRecord t0 uid S"
  then have r: "?r = (Updated uid T,
        db\<lparr>faults := drop 2 (faults db), documents := (documents db)(uid \<mapsto> S ++ T)\<rparr>)"
    using updateUserPreferences_general [OF _ _ _ _ _ E_def M_def T_def] by blast
  from h obtain v where c: "dom (defaultPreferences t0) \<subseteq> dom S"
    "S ''userId'' = Some (PStr uid)" "S ''createdAt'' = Some v" "truthyPref v"
    by (auto simp: completeRecord_def)
  have e: "E = S(''updatedAt'' \<mapsto> orPref (S ''updatedAt'') (PDate n1))"
    by (simp add: E_def map_add_covered [OF c(1)])
  have m: "M = S(''ageGroup'' \<mapsto> PStr a, ''updatedAt'' \<mapsto> PDate n2)"
    by (rule ext) (simp add: M_def e)
  have "dom (defaultPreferences t0) \<subseteq> dom M"
    using c(1) by (auto simp: m)
  then have dm: "defaultPreferences t0 ++ M = M" by (rule map_add_covered)
  have "T = M(''userId'' \<mapsto> PStr uid, ''updatedAt'' \<mapsto> PDate n3,
                  ''createdAt'' \<mapsto> orPref (M ''createdAt'') (PDate n3))"
    by (simp add: T_def dm)
  then have tt: "T = S(''ageGroup'' \<mapsto> PStr a, ''updatedAt'' \<mapsto> PDate n3)"
    unfolding m by (intro ext) (use c in \<open>simp add: orPref_def\<close>)
  have "dom S \<subseteq> dom T" by (auto simp: tt)
  then have "S ++ T = T" by (rule map_add_covered)
  with r tt show "?r =
        (Updated uid (S(''ageGroup'' \<mapsto> PStr a, ''updatedAt'' \<mapsto> PDate n3)),
         db\<lparr>faults := drop 2 (faults db),
            documents :=
              (documents db)(uid \<mapsto> S(''ageGroup'' \<mapsto> PStr a, ''updatedAt'' \<mapsto> PDate n3))\<rparr>)"
    by simp
qed


theorem updateUserPreferences_ageGroup_only_witness:
  "updateUserPreferences 0 200 201 202 prefsDb ''u1'' (Some [''ageGroup'' \<mapsto> PStr ''senior''])
     = (Updated ''u1'' (storedPrefs(''ageGroup'' \<mapsto> PStr ''senior'', ''updatedAt'' \<mapsto> PDate 202)),
        prefsDb\<lparr>faults := drop 2 (faults prefsDb),
           documents :=
             (documents prefsDb)
               (''u1'' \<mapsto> storedPrefs(''ageGroup'' \<mapsto> PStr ''senior'', ''updatedAt'' \<mapsto> PDate 202))\<rparr>)
   \<and> storedField prefsDb ''u1'' ''interests'' = Some (PList [''food''])
   \<and> storedField
        (snd (updateUserPreferences 0 200 201 202 prefsDb ''u1''
               (Some [''ageGroup'' \<mapsto> PStr ''senior''])))
        ''u1'' ''interests'' = Some (PList [''food''])"
proof -
  note th = updateUserPreferences_ageGroup_only
    [of prefsDb "''u1''" "''senior''" storedPrefs "PList [''food'']" 0 200 201 202]
  have h: "initialized prefsDb" "True \<notin> set (take 2 (faults prefsDb))" "''u1'' \<noteq> []"
    "documents prefsDb ''u1'' = Some storedPrefs"
    by (simp_all add: prefsDb_def)
  have a: "''senior'' \<in> set getAvailableAgeGroups"
    by (simp add: getAvailableAgeGroups_def ageGroupPreferences_def)
  have i: "storedPrefs ''interests'' = Some (PList [''food''])"
    by (simp add: storedPrefs_def)
  have c: "completeRecord 0 ''u1'' storedPrefs"
    by (simp add: completeRecord_def storedPrefs_def defaultPreferences_def)
  from th h a c have 1:
    "updateUserPreferences 0 200 201 202 prefsDb ''u1'' (Some [''ageGroup'' \<mapsto> PStr ''senior''])
     = (Updated ''u1'' (storedPrefs(''ageGroup'' \<mapsto> PStr ''senior'', ''updatedAt'' \<mapsto> PDate 202)),
        prefsDb\<lparr>faults := drop 2 (faults prefsDb),
           documents :=
             (documents prefsDb)
               (''u1'' \<mapsto> storedPrefs(''ageGroup'' \<mapsto> PStr ''senior'', ''updatedAt'' \<mapsto> PDate 202))\<rparr>)"
    by blast
  from th h a i have 2: "storedField
        (snd (updateUserPreferences 0 200 201 202 prefsDb ''u1''
               (Some [''ageGroup'' \<mapsto> PStr ''senior''])))
        ''u1'' ''interests'' = Some (PList [''food''])"
    by blast
  have 3: "storedField prefsDb ''u1'' ''interests'' = Some (PList [''food''])"
    by (simp add: storedField_def h i)
  from 1 2 3 show ?thesis by blast
qed

end
